theory Spec2Isabelle
  imports Main
begin

section \<open>The relay of server.js as an event-driven state machine\<close>

text \<open>
  The development follows the current server (the first program of \<^verbatim>\<open>src/server.js\<close>,
  lines 1 to 928): the WebSocket \<^verbatim>\<open>connection\<close> handler, \<^verbatim>\<open>handleClientMessage\<close>,
  \<^verbatim>\<open>connectToSoniox\<close> with the four listeners and the timer it installs,
  \<^verbatim>\<open>cleanupConnection\<close>, \<^verbatim>\<open>sendToClient\<close> and \<^verbatim>\<open>sendError\<close>. The file holds two older
  copies of the server after it (from line 929 and from line 1338). They have
  \<^verbatim>\<open>cleanupConnection\<close>, \<^verbatim>\<open>sendToClient\<close>, \<^verbatim>\<open>sendError\<close>, the restart of
  \<^verbatim>\<open>connectToSoniox\<close> and the timer callback word for word; they read the token from the
  query string only, pass the provider key in a header and send the client's configuration
  on as it is, and the oldest signals readiness when the upstream socket opens. They are
  not embedded; where a property below is about a place in which they differ, the text
  says so.

  Every listener is a function from the server state to the server state, or to an
  exception where it can throw. What the relay does to the outside world (frames sent,
  sockets closed or created, timers set) is appended to the field \<open>trace\<close>, in program
  order. Logging is not modelled.
\<close>

subsection \<open>JSON values and the JavaScript operators applied to them\<close>

text \<open>
  A parsed frame is a JSON value. Objects are association lists in key order; a property
  that is not there reads as JavaScript's \<^verbatim>\<open>undefined\<close>, here \<open>None\<close>. Numbers are
  opaque to the relay but for the test against zero that truthiness makes.
\<close>

datatype json =
    JNull
  | JBool bool
  | JNum int
  | JStr string
  | JArr "json list"
  | JObj "(string \<times> json) list"

text \<open>Property access \<^verbatim>\<open>v.k\<close> on a value other than \<^verbatim>\<open>null\<close>. None of the keys the
  relay reads is a prototype property of strings, numbers, booleans or arrays.\<close>

fun getProp :: "json \<Rightarrow> string \<Rightarrow> json option" where
  "getProp (JObj kvs) k = map_of kvs k"
| "getProp _ k = None"

fun truthy :: "json \<Rightarrow> bool" where
  "truthy JNull = False"
| "truthy (JBool b) = b"
| "truthy (JNum n) = (n \<noteq> 0)"
| "truthy (JStr s) = (s \<noteq> [])"
| "truthy (JArr _) = True"
| "truthy (JObj _) = True"

text \<open>\<^verbatim>\<open>x || d\<close> where \<open>x\<close> is a property read: the default replaces every falsy value.\<close>

definition orElse :: "json option \<Rightarrow> json \<Rightarrow> json" where
  "orElse x d = (case x of None \<Rightarrow> d | Some v \<Rightarrow> if truthy v then v else d)"

text \<open>The truthiness test \<^verbatim>\<open>if (x)\<close> on a property read.\<close>

definition truthyProp :: "json option \<Rightarrow> bool" where
  "truthyProp x = (case x of None \<Rightarrow> False | Some v \<Rightarrow> truthy v)"

text \<open>\<^verbatim>\<open>x !== false\<close> on a property read.\<close>

definition notFalse :: "json option \<Rightarrow> bool" where
  "notFalse x = (x \<noteq> Some (JBool False))"

subsection \<open>What the relay takes from the platform\<close>

text \<open>An exception that no handler catches ends the process; so does the rejected promise
  of an \<^verbatim>\<open>async\<close> listener, which nothing handles.\<close>

datatype js_error = TypeError

text \<open>A parsed URL as far as the relay reads it: \<^verbatim>\<open>url.searchParams\<close>, decoded, in
  order.\<close>

record URL =
  searchParams :: "(string \<times> string) list"

text \<open>What the process reads from outside the relay: \<^verbatim>\<open>JSON.parse(text)\<close> and
  \<^verbatim>\<open>new URL(input, base)\<close>, both \<open>None\<close> where they throw, and the provider key of
  the environment.\<close>

record env =
  JSON_parse :: "string \<Rightarrow> json option"
  new_URL :: "string \<Rightarrow> string \<Rightarrow> URL option"
  SONIOX_API_KEY :: string

subsection \<open>Sockets, Connection Records and the server state\<close>

type_synonym sock = nat
type_synonym ref = nat
type_synonym conn_id = string

datatype ready_state = CONNECTING | OPEN | CLOSING | CLOSED

text \<open>What is handed to \<^verbatim>\<open>ws.send\<close>: the bytes as they are, or \<^verbatim>\<open>JSON.stringify\<close> of
  a value built by the relay.\<close>

datatype payload = Raw string | Stringify json

text \<open>
  The calls the relay makes on the outside world. \<open>Send s p rs\<close> is \<^verbatim>\<open>s.send(p)\<close>, and
  \<open>rs\<close> records the \<^verbatim>\<open>readyState\<close> that socket had when the call was made.
  \<open>Close s args\<close> is \<^verbatim>\<open>s.close(code, reason)\<close>, \<open>NewWebSocket s\<close> the constructor call
  that yields the upstream socket \<open>s\<close>, \<open>SetTimeout s ms\<close> the timer of that attempt,
  \<open>GetUser t\<close> the call of the credential verifier \<^verbatim>\<open>supabase.auth.getUser(t)\<close>.
\<close>

datatype action =
    Send sock payload ready_state
  | Close sock "(nat \<times> string) option"
  | NewWebSocket sock
  | SetTimeout sock nat
  | GetUser string

record connectionInfo =
  clientWs :: sock
  sonioxWs :: "sock option"
  connectionId :: conn_id
  isReady :: bool

text \<open>What the listeners of one upstream socket close over: the Connection Record object
  (by reference), the connection id and the client's configuration.\<close>

record attempt =
  a_conn :: ref
  a_connectionId :: conn_id
  a_config :: json

text \<open>
  \<open>connections\<close> is the module-level \<^verbatim>\<open>Map\<close>; it holds references, and the records live
  in \<open>heap\<close>, since the upstream listeners keep their record after it has left the map.
  \<open>listeners\<close> holds, for every upstream socket created, what its listeners closed over;
  \<open>timers\<close> the attempts whose timer has not fired yet, \<open>opened\<close> the upstream sockets
  whose handshake has completed: only these have a receiver, so only these deliver frames.
\<close>

record server =
  connections :: "conn_id \<rightharpoonup> ref"
  heap :: "ref \<Rightarrow> connectionInfo"
  readyState :: "sock \<Rightarrow> ready_state"
  listeners :: "sock \<rightharpoonup> attempt"
  timers :: "sock set"
  next_sock :: sock
  next_ref :: ref
  trace :: "action list"
  opened :: "sock set"

definition init_server :: server where
  "init_server =
     \<lparr> connections = Map.empty,
       heap = (\<lambda>_. \<lparr> clientWs = 0, sonioxWs = None, connectionId = [], isReady = False \<rparr>),
       readyState = (\<lambda>_. CLOSED),
       listeners = Map.empty,
       timers = {},
       next_sock = 0,
       next_ref = 0,
       trace = [],
       opened = {} \<rparr>"

subsection \<open>The socket library, as far as the relay relies on it\<close>

text \<open>
  \<^verbatim>\<open>s.send(p)\<close>: the call is recorded together with the state of the socket.
\<close>

definition ws_send :: "sock \<Rightarrow> payload \<Rightarrow> server \<Rightarrow> server" where
  "ws_send s p st = st\<lparr> trace := trace st @ [Send s p (readyState st s)] \<rparr>"

text \<open>
  \<^verbatim>\<open>s.close(...)\<close>: a socket that is connecting or open starts closing; a closing or
  closed one stays as it is. The call never throws.
\<close>

definition ws_close :: "sock \<Rightarrow> (nat \<times> string) option \<Rightarrow> server \<Rightarrow> server" where
  "ws_close s args st =
     st\<lparr> trace := trace st @ [Close s args],
         readyState := (readyState st)
           (s := (case readyState st s of
                    CONNECTING \<Rightarrow> CLOSING
                  | OPEN \<Rightarrow> CLOSING
                  | CLOSING \<Rightarrow> CLOSING
                  | CLOSED \<Rightarrow> CLOSED)) \<rparr>"

subsection \<open>sendToClient and sendError (lines 892 to 900)\<close>

definition sendToClient :: "sock option \<Rightarrow> json \<Rightarrow> server \<Rightarrow> server" where
  "sendToClient ws data st =
     (case ws of
        None \<Rightarrow> st
      | Some s \<Rightarrow> if readyState st s = OPEN then ws_send s (Stringify data) st else st)"

text \<open>\<^verbatim>\<open>{ type: 'error', message, code }\<close>; a \<^verbatim>\<open>code\<close> that is \<^verbatim>\<open>undefined\<close> is left
  out by \<^verbatim>\<open>JSON.stringify\<close>.\<close>

definition errorFrame :: "string \<Rightarrow> int option \<Rightarrow> json" where
  "errorFrame message code =
     JObj ([(''type'', JStr ''error''), (''message'', JStr message)] @
           (case code of None \<Rightarrow> [] | Some c \<Rightarrow> [(''code'', JNum c)]))"

definition sendError :: "sock option \<Rightarrow> string \<Rightarrow> int option \<Rightarrow> server \<Rightarrow> server" where
  "sendError ws message code st = sendToClient ws (errorFrame message code) st"

subsection \<open>String operations of the upgrade handler\<close>

text \<open>\<^verbatim>\<open>s.startsWith(p)\<close>.\<close>

definition startsWith :: "string \<Rightarrow> string \<Rightarrow> bool" where
  "startsWith s p = (take (length p) s = p)"

text \<open>\<^verbatim>\<open>s.split(c)\<close> for a one-character separator: never an empty list.\<close>

primrec splitOn :: "char \<Rightarrow> string \<Rightarrow> string list" where
  "splitOn c [] = [[]]"
| "splitOn c (x # xs) =
     (if x = c then [] # splitOn c xs
      else (case splitOn c xs of
              [] \<Rightarrow> [[x]]
            | w # ws \<Rightarrow> (x # w) # ws))"

text \<open>The white space \<^verbatim>\<open>trim\<close> removes, among the characters a header value can hold
  (tab, line feed, vertical tab, form feed, carriage return, space, no-break space).\<close>

definition isWhiteSpace :: "char \<Rightarrow> bool" where
  "isWhiteSpace c = (c \<in> set [CHR 0x09, CHR 0x0A, CHR 0x0B, CHR 0x0C, CHR 0x0D, CHR 0x20, CHR 0xA0])"

definition trim :: "string \<Rightarrow> string" where
  "trim s = rev (dropWhile isWhiteSpace (rev (dropWhile isWhiteSpace s)))"

text \<open>\<^verbatim>\<open>s.replace(pat, rep)\<close> with a string pattern: the first occurrence only.\<close>

fun replaceFirst :: "string \<Rightarrow> string \<Rightarrow> string \<Rightarrow> string" where
  "replaceFirst pat rep [] = (if pat = [] then rep else [])"
| "replaceFirst pat rep (c # cs) =
     (if startsWith (c # cs) pat then rep @ drop (length pat) (c # cs)
      else c # replaceFirst pat rep cs)"

subsection \<open>The upgrade handler (lines 561 to 645)\<close>

text \<open>
  What the handler reads of the upgrade request: the request target \<^verbatim>\<open>req.url\<close>, and the
  headers \<^verbatim>\<open>host\<close> and \<^verbatim>\<open>sec-websocket-protocol\<close> (\<open>None\<close> for a header that is not
  there).
\<close>

record request =
  url :: string
  host :: "string option"
  sec_websocket_protocol :: "string option"

text \<open>The base of line 569, \<^verbatim>\<open>`http://${req.headers.host}`\<close>: a template literal prints
  \<^verbatim>\<open>undefined\<close> by its name.\<close>

definition urlBase :: "request \<Rightarrow> string" where
  "urlBase req = ''http://'' @ (case host req of None \<Rightarrow> ''undefined'' | Some h \<Rightarrow> h)"

text \<open>\<^verbatim>\<open>!token\<close> on a string or \<^verbatim>\<open>null\<close>.\<close>

definition noToken :: "string option \<Rightarrow> bool" where
  "noToken t = (case t of None \<Rightarrow> True | Some s \<Rightarrow> s = [])"

text \<open>Lines 570 to 582, once the URL is parsed. \<^verbatim>\<open>searchParams.get\<close> yields the first
  value of the name, or \<^verbatim>\<open>null\<close>.\<close>

definition extractToken :: "URL \<Rightarrow> request \<Rightarrow> string option" where
  "extractToken u req =
     (let token = map_of (searchParams u) ''token'' in
      if \<not> noToken token then token
      else (case sec_websocket_protocol req of
              None \<Rightarrow> token
            | Some protocols \<Rightarrow>
                if protocols = [] then token
                else (case find (\<lambda>p. startsWith p ''Bearer.'')
                             (map trim (splitOn (CHR '','') protocols)) of
                        None \<Rightarrow> token
                      | Some bearerProtocol \<Rightarrow>
                          if bearerProtocol = [] then token
                          else Some (replaceFirst ''Bearer.'' [] bearerProtocol))))"

text \<open>
  The handler up to its \<^verbatim>\<open>await\<close> (lines 562 to 593). The URL is parsed at line 569,
  outside every \<^verbatim>\<open>try\<close>: where \<^verbatim>\<open>new URL\<close> throws, the handler is left before it has
  sent or closed anything. Otherwise either the connection is refused, or the verifier is
  called with the token.
\<close>

definition wssOnConnection ::
  "env \<Rightarrow> conn_id \<Rightarrow> sock \<Rightarrow> request \<Rightarrow> server \<Rightarrow> js_error + server" where
  "wssOnConnection e cid ws req st =
     (case new_URL e (url req) (urlBase req) of
        None \<Rightarrow> Inl TypeError
      | Some u \<Rightarrow>
          (let token = extractToken u req in
           if noToken token then
             Inr (ws_close ws (Some (1008, ''Unauthorized''))
                    (sendError (Some ws) ''Unauthorized: No token provided'' (Some 401) st))
           else (case token of
                   None \<Rightarrow> Inr st
                 | Some t \<Rightarrow> Inr (st\<lparr> trace := trace st @ [GetUser t] \<rparr>))))"

text \<open>How the awaited call ends: a user, no user (or an error value), or an exception.\<close>

datatype getUser_outcome = UserFound | NoUser | GetUserThrew

definition authSuccessFrame :: "conn_id \<Rightarrow> json" where
  "authSuccessFrame cid =
     JObj [(''type'', JStr ''auth_success''),
           (''message'', JStr ''Authenticated, ready for start message''),
           (''connectionId'', JStr cid)]"

text \<open>The handler after the \<^verbatim>\<open>await\<close> (lines 593 to 627).\<close>

definition wssOnConnection_settled ::
  "conn_id \<Rightarrow> sock \<Rightarrow> getUser_outcome \<Rightarrow> server \<Rightarrow> server" where
  "wssOnConnection_settled cid ws outcome st =
     (case outcome of
        NoUser \<Rightarrow>
          ws_close ws (Some (1008, ''Unauthorized''))
            (sendError (Some ws) ''Unauthorized: Invalid token'' (Some 401) st)
      | GetUserThrew \<Rightarrow>
          ws_close ws (Some (1011, ''Auth error''))
            (sendError (Some ws) ''Authentication error'' (Some 500) st)
      | UserFound \<Rightarrow>
          (let r = next_ref st;
               st1 = st\<lparr> heap := (heap st)
                           (r := \<lparr> clientWs = ws, sonioxWs = None,
                                   connectionId = cid, isReady = False \<rparr>),
                         next_ref := Suc r,
                         connections := (connections st)(cid \<mapsto> r) \<rparr>
           in sendToClient (Some ws) (authSuccessFrame cid) st1))"

subsection \<open>connectToSoniox and its listeners (lines 730 to 871)\<close>

definition updConn :: "ref \<Rightarrow> (connectionInfo \<Rightarrow> connectionInfo) \<Rightarrow> server \<Rightarrow> server" where
  "updConn r f st = st\<lparr> heap := (heap st)(r := f (heap st r)) \<rparr>"

text \<open>
  Lines 730 to 748 and 860 to 870: the record is looked up, an attached upstream socket is
  closed and detached, the new socket is created with its listeners, and the 10 second
  timer is set.
\<close>

definition connectToSoniox :: "conn_id \<Rightarrow> json \<Rightarrow> server \<Rightarrow> server" where
  "connectToSoniox cid config st =
     (case connections st cid of
        None \<Rightarrow> st
      | Some r \<Rightarrow>
          (let st1 = (case sonioxWs (heap st r) of
                        None \<Rightarrow> st
                      | Some old \<Rightarrow>
                          updConn r (\<lambda>c. c\<lparr> sonioxWs := None \<rparr>) (ws_close old None st));
               s = next_sock st1
           in st1\<lparr> next_sock := Suc s,
                   readyState := (readyState st1)(s := CONNECTING),
                   listeners := (listeners st1)
                     (s \<mapsto> \<lparr> a_conn = r, a_connectionId = cid, a_config = config \<rparr>),
                   timers := insert s (timers st1),
                   trace := trace st1 @ [NewWebSocket s, SetTimeout s 10000] \<rparr>))"

text \<open>Lines 754 to 794: the configuration sent upstream. \<open>config\<close> is never
  \<^verbatim>\<open>null\<close> here: it is \<^verbatim>\<open>message.config || message\<close> of a start message.\<close>

definition buildSonioxConfig :: "string \<Rightarrow> json \<Rightarrow> json" where
  "buildSonioxConfig apiKey config =
     JObj ([(''api_key'', JStr apiKey),
            (''model'', orElse (getProp config ''model'') (JStr ''stt-rt-preview'')),
            (''audio_format'', orElse (getProp config ''audio_format'') (JStr ''pcm_s16le'')),
            (''sample_rate'', orElse (getProp config ''sample_rate'') (JNum 16000)),
            (''num_channels'', orElse (getProp config ''num_channels'') (JNum 1)),
            (''include_nonfinal'', JBool (notFalse (getProp config ''include_nonfinal''))),
            (''language_hints'', orElse (getProp config ''language_hints'') (JArr [JStr ''en''])),
            (''enable_endpoint_detection'',
               JBool (notFalse (getProp config ''enable_endpoint_detection''))),
            (''max_non_final_tokens_duration_ms'',
               orElse (getProp config ''max_non_final_tokens_duration_ms'') (JNum 4000))] @
           (case getProp config ''translation'' of
              None \<Rightarrow> []
            | Some tr \<Rightarrow>
                if \<not> truthy tr then []
                else (case getProp tr ''target_language'' of
                        None \<Rightarrow> []
                      | Some targetLang \<Rightarrow>
                          if \<not> truthy targetLang then []
                          else [(''translation'',
                                 JObj ([(''type'', orElse (getProp tr ''type'') (JStr ''one_way'')),
                                        (''target_language'', targetLang)] @
                                       (case getProp tr ''source_language'' of
                                          None \<Rightarrow> []
                                        | Some sourceLang \<Rightarrow>
                                            if truthy sourceLang
                                            then [(''source_language'', sourceLang)]
                                            else [])))])))"

text \<open>The \<^verbatim>\<open>open\<close> listener (lines 750 to 802).\<close>

definition sonioxOnOpen :: "env \<Rightarrow> sock \<Rightarrow> attempt \<Rightarrow> server \<Rightarrow> server" where
  "sonioxOnOpen e s a st =
     ws_send s (Stringify (buildSonioxConfig (SONIOX_API_KEY e) (a_config a)))
       (updConn (a_conn a) (\<lambda>c. c\<lparr> sonioxWs := Some s \<rparr>) st)"

definition proxyReadyFrame :: "conn_id \<Rightarrow> json" where
  "proxyReadyFrame cid =
     JObj [(''type'', JStr ''proxy_ready''), (''connection_id'', JStr cid)]"

text \<open>The \<^verbatim>\<open>message\<close> listener (lines 804 to 822).\<close>

definition sonioxOnMessage :: "attempt \<Rightarrow> string \<Rightarrow> server \<Rightarrow> server" where
  "sonioxOnMessage a dataStr st =
     (let r = a_conn a;
          st1 = (if \<not> isReady (heap st r)
                 then sendToClient (Some (clientWs (heap st r)))
                        (proxyReadyFrame (a_connectionId a))
                        (updConn r (\<lambda>c. c\<lparr> isReady := True \<rparr>) st)
                 else st);
          ws = clientWs (heap st1 r)
      in if readyState st1 ws = OPEN then ws_send ws (Raw dataStr) st1 else st1)"

text \<open>The \<^verbatim>\<open>close\<close> listener (lines 824 to 844).\<close>

definition sonioxOnClose :: "attempt \<Rightarrow> nat \<Rightarrow> string option \<Rightarrow> server \<Rightarrow> server" where
  "sonioxOnClose a code reason st =
     (let reasonStr = (case reason of None \<Rightarrow> ''No reason provided'' | Some b \<Rightarrow> b);
          r = a_conn a;
          st1 = updConn r (\<lambda>c. c\<lparr> sonioxWs := None, isReady := False \<rparr>) st;
          ws = clientWs (heap st1 r)
      in if readyState st1 ws = OPEN
         then sendToClient (Some ws)
                (errorFrame (''Soniox connection closed: '' @
                               (if reasonStr = [] then ''Unknown reason'' else reasonStr))
                   (Some (int code))) st1
         else st1)"

text \<open>The \<^verbatim>\<open>error\<close> listener (lines 846 to 858).\<close>

definition sonioxOnError :: "attempt \<Rightarrow> string \<Rightarrow> server \<Rightarrow> server" where
  "sonioxOnError a message st =
     (let r = a_conn a;
          st1 = updConn r (\<lambda>c. c\<lparr> sonioxWs := None, isReady := False \<rparr>) st;
          ws = clientWs (heap st1 r)
      in if readyState st1 ws = OPEN
         then sendToClient (Some ws)
                (errorFrame (''Soniox connection error: '' @ message) None) st1
         else st1)"

text \<open>The timer callback (lines 861 to 870).\<close>

definition onTimeout :: "sock \<Rightarrow> attempt \<Rightarrow> server \<Rightarrow> server" where
  "onTimeout s a st =
     (if readyState st s \<noteq> OPEN
      then (let st1 = ws_close s None st
            in sendToClient (Some (clientWs (heap st1 (a_conn a))))
                 (errorFrame ''Soniox connection timeout'' None) st1)
      else st)"

subsection \<open>cleanupConnection (lines 873 to 890)\<close>

definition closeSoniox :: "connectionInfo \<Rightarrow> server \<Rightarrow> server" where
  "closeSoniox conn st = (case sonioxWs conn of None \<Rightarrow> st | Some s \<Rightarrow> ws_close s None st)"

definition closeClient :: "connectionInfo \<Rightarrow> server \<Rightarrow> server" where
  "closeClient conn st =
     (if readyState st (clientWs conn) \<noteq> CLOSED then ws_close (clientWs conn) None st else st)"

definition connectionsDelete :: "conn_id \<Rightarrow> server \<Rightarrow> server" where
  "connectionsDelete cid st = st\<lparr> connections := (connections st)(cid := None) \<rparr>"

definition cleanupConnection :: "conn_id \<Rightarrow> server \<Rightarrow> server" where
  "cleanupConnection cid st =
     (case connections st cid of
        None \<Rightarrow> st
      | Some r \<Rightarrow>
          (let conn = heap st r
           in connectionsDelete cid (closeClient conn (closeSoniox conn st))))"

subsection \<open>handleClientMessage (lines 647 to 728)\<close>

text \<open>
  \<open>dataStr\<close> is \<^verbatim>\<open>data.toString()\<close>. A frame is a list of bytes, and the decoded
  string starts with an opening brace or bracket exactly when the first byte is that
  character, so the test is made on the bytes.
\<close>

definition looksLikeJson :: "string \<Rightarrow> bool" where
  "looksLikeJson dataStr = (startsWith dataStr ''{'' \<or> startsWith dataStr ''['')"

text \<open>The specification's test on a binary frame, in its own words: the first byte that
  is not white space, for whatever bytes \<open>white\<close> counts as white space.\<close>

definition firstNonWhitespace :: "(char \<Rightarrow> bool) \<Rightarrow> string \<Rightarrow> char option" where
  "firstNonWhitespace white data = (case dropWhile white data of [] \<Rightarrow> None | c # _ \<Rightarrow> Some c)"

text \<open>\<^verbatim>\<open>if (conn.sonioxWs && conn.sonioxWs.readyState === WebSocket.OPEN)
  conn.sonioxWs.send(p)\<close>.\<close>

definition sendIfSonioxOpen :: "connectionInfo \<Rightarrow> payload \<Rightarrow> server \<Rightarrow> server" where
  "sendIfSonioxOpen conn p st =
     (case sonioxWs conn of
        None \<Rightarrow> st
      | Some s \<Rightarrow> if readyState st s = OPEN then ws_send s p st else st)"

definition pongFrame :: "json \<Rightarrow> int \<Rightarrow> json" where
  "pongFrame message now =
     JObj [(''type'', JStr ''pong''),
           (''ref'', orElse (getProp message ''ref'') (JNum 0)),
           (''timestamp'', JNum now)]"

text \<open>
  \<open>now\<close> is what \<^verbatim>\<open>Date.now()\<close> returns during the call. Reading a property of
  \<^verbatim>\<open>null\<close> throws, which happens for the frame \<^verbatim>\<open>null\<close> at line 683.
\<close>

definition handleClientMessage ::
  "env \<Rightarrow> conn_id \<Rightarrow> string \<Rightarrow> bool \<Rightarrow> int \<Rightarrow> server \<Rightarrow> js_error + server" where
  "handleClientMessage e cid data isBinary now st =
     (case connections st cid of
        None \<Rightarrow> Inr st
      | Some r \<Rightarrow>
          (let conn = heap st r in
           if isBinary \<and> \<not> looksLikeJson data then Inr (sendIfSonioxOpen conn (Raw data) st)
           else (case JSON_parse e data of
                   None \<Rightarrow> Inr st
                 | Some message \<Rightarrow>
                     if message = JNull then Inl TypeError
                     else if getProp message ''type'' = Some (JStr ''ping'')
                     then Inr (sendToClient (Some (clientWs conn)) (pongFrame message now) st)
                     else if getProp message ''action'' = Some (JStr ''start'')
                     then Inr (connectToSoniox cid (orElse (getProp message ''config'') message) st)
                     else if getProp message ''type'' = Some (JStr ''finalize'')
                     then Inr (sendIfSonioxOpen conn (Stringify message) st)
                     else Inr (sendIfSonioxOpen conn (Stringify message) st))))"

subsection \<open>Events\<close>

text \<open>
  The events the runtime delivers. Before it calls a listener the socket library has
  already moved the socket: to \<open>OPEN\<close> for \<^verbatim>\<open>open\<close> (and the socket counts as opened
  from then on), to \<open>CLOSED\<close> for \<^verbatim>\<open>close\<close>, to \<open>CLOSING\<close> for \<^verbatim>\<open>error\<close>. A new
  client socket is open when \<^verbatim>\<open>connection\<close> is emitted. The identifier of a connection
  comes from \<^verbatim>\<open>Math.random\<close> and is part of the event; so is what a listener of the
  client socket closed over.
\<close>

datatype event =
    Connection conn_id request
  | GetUserSettled conn_id sock getUser_outcome
  | ClientMessage conn_id string bool int
  | ClientClose conn_id sock
  | ClientError conn_id sock
  | SonioxOpen sock
  | SonioxMessage sock string
  | SonioxClose sock nat "string option"
  | SonioxError sock string
  | TimerFired sock

definition setReadyState :: "sock \<Rightarrow> ready_state \<Rightarrow> server \<Rightarrow> server" where
  "setReadyState s rs st = st\<lparr> readyState := (readyState st)(s := rs) \<rparr>"

fun step :: "env \<Rightarrow> event \<Rightarrow> server \<Rightarrow> js_error + server" where
  "step e (Connection cid req) st =
     (let ws = next_sock st
      in wssOnConnection e cid ws req (setReadyState ws OPEN (st\<lparr> next_sock := Suc ws \<rparr>)))"
| "step e (GetUserSettled cid ws outcome) st = Inr (wssOnConnection_settled cid ws outcome st)"
| "step e (ClientMessage cid data isBinary now) st = handleClientMessage e cid data isBinary now st"
| "step e (ClientClose cid ws) st = Inr (cleanupConnection cid (setReadyState ws CLOSED st))"
| "step e (ClientError cid ws) st = Inr (cleanupConnection cid (setReadyState ws CLOSING st))"
| "step e (SonioxOpen s) st =
     (case listeners st s of
        None \<Rightarrow> Inr st
      | Some a \<Rightarrow>
          Inr (sonioxOnOpen e s a (setReadyState s OPEN (st\<lparr> opened := insert s (opened st) \<rparr>))))"
| "step e (SonioxMessage s dataStr) st =
     (case listeners st s of
        None \<Rightarrow> Inr st
      | Some a \<Rightarrow> Inr (sonioxOnMessage a dataStr st))"
| "step e (SonioxClose s code reason) st =
     (case listeners st s of
        None \<Rightarrow> Inr st
      | Some a \<Rightarrow> Inr (sonioxOnClose a code reason (setReadyState s CLOSED st)))"
| "step e (SonioxError s message) st =
     (case listeners st s of
        None \<Rightarrow> Inr st
      | Some a \<Rightarrow> Inr (sonioxOnError a message (setReadyState s CLOSING st)))"
| "step e (TimerFired s) st =
     (case listeners st s of
        None \<Rightarrow> Inr st
      | Some a \<Rightarrow> Inr (onTimeout s a (st\<lparr> timers := timers st - {s} \<rparr>)))"

text \<open>
  When the runtime can deliver an event: a socket opens once, while it is connecting;
  frames arrive on a socket that has opened and is open or closing (a socket closed
  during its handshake never delivers one); a socket that is closed emits nothing more; a
  timer fires once; the listeners of a client socket exist once its connection was
  registered.
\<close>

fun deliverable :: "server \<Rightarrow> event \<Rightarrow> bool" where
  "deliverable st (Connection cid req) = True"
| "deliverable st (GetUserSettled cid ws outcome) =
     list_ex (\<lambda>a. case a of GetUser t \<Rightarrow> True | _ \<Rightarrow> False) (trace st)"
| "deliverable st (ClientMessage cid data isBinary now) =
     (case connections st cid of
        None \<Rightarrow> False
      | Some r \<Rightarrow> readyState st (clientWs (heap st r)) \<in> {OPEN, CLOSING})"
| "deliverable st (ClientClose cid ws) = (readyState st ws \<noteq> CLOSED)"
| "deliverable st (ClientError cid ws) = (readyState st ws \<noteq> CLOSED)"
| "deliverable st (SonioxOpen s) = (listeners st s \<noteq> None \<and> readyState st s = CONNECTING)"
| "deliverable st (SonioxMessage s dataStr) =
     (listeners st s \<noteq> None \<and> s \<in> opened st \<and> readyState st s \<in> {OPEN, CLOSING})"
| "deliverable st (SonioxClose s code reason) =
     (listeners st s \<noteq> None \<and> readyState st s \<noteq> CLOSED)"
| "deliverable st (SonioxError s message) =
     (listeners st s \<noteq> None \<and> readyState st s \<noteq> CLOSED)"
| "deliverable st (TimerFired s) = (s \<in> timers st)"

datatype run_error = Uncaught js_error | Undeliverable

text \<open>A schedule of events, run from a state; it stops at the first event that cannot be
  delivered and at the first uncaught exception.\<close>

fun run :: "env \<Rightarrow> event list \<Rightarrow> server \<Rightarrow> run_error + server" where
  "run e [] st = Inr st"
| "run e (ev # evs) st =
     (if \<not> deliverable st ev then Inl Undeliverable
      else (case step e ev st of
              Inl err \<Rightarrow> Inl (Uncaught err)
            | Inr st' \<Rightarrow> run e evs st'))"

subsection \<open>What a listener added to the trace\<close>

definition newActions :: "server \<Rightarrow> server \<Rightarrow> action list" where
  "newActions st st' = drop (length (trace st)) (trace st')"

definition sentWhileOpen :: "action \<Rightarrow> bool" where
  "sentWhileOpen a = (case a of Send s p rs \<Rightarrow> rs = OPEN | _ \<Rightarrow> True)"

text \<open>\<open>st'\<close> continues the trace of \<open>st\<close>, and every \<^verbatim>\<open>send\<close> in between was made on a
  socket that was open.\<close>

definition extendsOpen :: "server \<Rightarrow> server \<Rightarrow> bool" where
  "extendsOpen st st' =
     (take (length (trace st)) (trace st') = trace st \<and>
      list_all sentWhileOpen (newActions st st'))"

subsection \<open>An upstream socket closed during its handshake\<close>

text \<open>The socket \<open>s\<close> was created, has not opened, and is closing or closed.\<close>

definition closedUnopened :: "sock \<Rightarrow> server \<Rightarrow> bool" where
  "closedUnopened s st =
     (s < next_sock st \<and> s \<notin> opened st \<and> readyState st s \<in> {CLOSING, CLOSED})"

subsection \<open>What the client can observe\<close>





subsection \<open>A sample deployment\<close>

text \<open>Concrete frames, a parser that knows them, a request, and states reached from the
  initial state; the theorems below are instantiated on them.\<close>

definition startFrame :: string where
  \<open>startFrame =
     ''{"action":"start","config":{"translation":{"target_language":"es","source_language":"en"}}}''\<close>

definition startMessage :: json where
  "startMessage =
     JObj [(''action'', JStr ''start''),
           (''config'', JObj [(''translation'',
              JObj [(''target_language'', JStr ''es''), (''source_language'', JStr ''en'')])])]"

definition pingFrame :: string where
  \<open>pingFrame = ''{"type":"ping","ref":42}''\<close>

definition pingEmptyRefFrame :: string where
  \<open>pingEmptyRefFrame = ''{"type":"ping","ref":""}''\<close>

definition malformedFrame :: string where
  \<open>malformedFrame = ''{not json''\<close>

definition audioFrame :: string where
  "audioFrame = [CHR 0x52, CHR 0x49, CHR 0x46, CHR 0x46, CHR 0x00, CHR 0x7B]"

text \<open>The URL parser of the sample deployment knows the targets of the sample requests,
  relative to the base \<^verbatim>\<open>http://relay.example\<close>. On the target \<^verbatim>\<open>//\<close> it fails, as the
  platform's parser does: the two slashes announce a host, and there is none.\<close>

definition demo_URL :: "string \<Rightarrow> string \<Rightarrow> URL option" where
  "demo_URL input base =
     (if base = ''http://relay.example''
      then map_of [(''/?token=jwt'', \<lparr> searchParams = [(''token'', ''jwt'')] \<rparr>),
                   (''/?v=2'', \<lparr> searchParams = [(''v'', ''2'')] \<rparr>),
                   (''/'', \<lparr> searchParams = [] \<rparr>)] input
      else None)"

definition demo_env :: env where
  "demo_env =
     \<lparr> JSON_parse = map_of
         [(startFrame, startMessage),
          (pingFrame, JObj [(''type'', JStr ''ping''), (''ref'', JNum 42)]),
          (pingEmptyRefFrame, JObj [(''type'', JStr ''ping''), (''ref'', JStr [])])],
       new_URL = demo_URL,
       SONIOX_API_KEY = ''provider-key'' \<rparr>"

definition demo_request :: request where
  "demo_request =
     \<lparr> url = ''/?token=jwt'', host = Some ''relay.example'', sec_websocket_protocol = None \<rparr>"

definition reach :: "event list \<Rightarrow> server" where
  "reach evs = (case run demo_env evs init_server of Inl err \<Rightarrow> init_server | Inr st \<Rightarrow> st)"

definition accepted :: server where
  "accepted = reach [Connection ''c1'' demo_request, GetUserSettled ''c1'' 0 UserFound]"

definition streamingEvents :: "event list" where
  "streamingEvents =
     [Connection ''c1'' demo_request, GetUserSettled ''c1'' 0 UserFound,
      ClientMessage ''c1'' startFrame False 1700000000000, SonioxOpen 1, SonioxMessage 1 ''{}'']"

definition streaming :: server where
  "streaming = reach streamingEvents"

definition demoConfig :: json where
  "demoConfig =
     JObj [(''translation'',
            JObj [(''target_language'', JStr ''es''), (''source_language'', JStr ''en'')])]"



definition bearerRequest :: request where
  "bearerRequest =
     \<lparr> url = ''/?v=2'', host = Some ''relay.example'',
       sec_websocket_protocol = Some ''soniox, Bearer.jwt-abc '' \<rparr>"

definition anonymousRequest :: request where
  "anonymousRequest =
     \<lparr> url = ''/'', host = Some ''relay.example'', sec_websocket_protocol = Some ''soniox'' \<rparr>"

definition emptyHostRequest :: request where
  "emptyHostRequest =
     \<lparr> url = ''//'', host = Some ''relay.example'', sec_websocket_protocol = None \<rparr>"

definition listening :: server where
  "listening = setReadyState 0 OPEN (init_server\<lparr> next_sock := 1 \<rparr>)"

definition endedEarlyEvents :: "event list" where
  "endedEarlyEvents = streamingEvents @ [SonioxClose 1 1000 (Some [])]"

definition restartEvents :: "event list" where
  "restartEvents = streamingEvents @ [ClientMessage ''c1'' startFrame False 1700000003000]"

definition replacedEvents :: "event list" where
  "replacedEvents = restartEvents @ [SonioxOpen 2, SonioxMessage 2 ''{}'']"

definition doubleStartEvents :: "event list" where
  "doubleStartEvents =
     [Connection ''c1'' demo_request, GetUserSettled ''c1'' 0 UserFound,
      ClientMessage ''c1'' startFrame False 1700000000000,
      ClientMessage ''c1'' startFrame False 1700000000001,
      SonioxOpen 1, SonioxOpen 2]"

definition neverOpenedEvents :: "event list" where
  "neverOpenedEvents =
     [Connection ''c1'' demo_request, GetUserSettled ''c1'' 0 UserFound,
      ClientMessage ''c1'' startFrame False 1700000000000]"

section \<open>Properties\<close>

subsection \<open>The sample states\<close>

lemma run_append:
  "run e (evs @ evs') st = (case run e evs st of Inl err \<Rightarrow> Inl err | Inr st' \<Rightarrow> run e evs' st')"
  by (induction evs arbitrary: st) (simp_all split: sum.splits)

lemmas relay_defs = init_server_def extractToken_def noToken_def wssOnConnection_def urlBase_def
  wssOnConnection_settled_def sendToClient_def sendError_def ws_send_def ws_close_def setReadyState_def
  handleClientMessage_def looksLikeJson_def startsWith_def connectToSoniox_def orElse_def
  sonioxOnOpen_def sonioxOnMessage_def sonioxOnClose_def sonioxOnError_def onTimeout_def
  cleanupConnection_def closeClient_def closeSoniox_def connectionsDelete_def updConn_def
  sendIfSonioxOpen_def Let_def

lemmas demo_defs = demo_env_def demo_URL_def demo_request_def startFrame_def startMessage_def pingFrame_def
  pingEmptyRefFrame_def malformedFrame_def audioFrame_def reach_def

lemma accepted_facts:
  "connections accepted ''c1'' = Some 0 \<and> readyState accepted 0 = OPEN \<and> readyState accepted 1 = CLOSED
   \<and> clientWs (heap accepted 0) = 0 \<and> sonioxWs (heap accepted 0) = None \<and> \<not> isReady (heap accepted 0)
   \<and> next_sock accepted = 1 \<and> trace accepted = [GetUser ''jwt'', Send 0 (Stringify (authSuccessFrame ''c1'')) OPEN]"
  by (simp add: accepted_def relay_defs demo_defs)

lemma streaming_facts:
  "connections streaming ''c1'' = Some 0 \<and> readyState streaming 0 = OPEN \<and> readyState streaming 1 = OPEN
   \<and> clientWs (heap streaming 0) = 0 \<and> sonioxWs (heap streaming 0) = Some 1 \<and> isReady (heap streaming 0)
   \<and> next_sock streaming = 2
   \<and> listeners streaming 1 = Some \<lparr> a_conn = 0, a_connectionId = ''c1'',
        a_config = JObj [(''translation'',
              JObj [(''target_language'', JStr ''es''), (''source_language'', JStr ''en'')])] \<rparr>
   \<and> 1 \<in> timers streaming"
  by (simp add: streaming_def streamingEvents_def relay_defs demo_defs)

lemma demo_parse:
  "JSON_parse demo_env malformedFrame = None \<and>
   JSON_parse demo_env pingFrame = Some (JObj [(''type'', JStr ''ping''), (''ref'', JNum 42)]) \<and>
   JSON_parse demo_env pingEmptyRefFrame = Some (JObj [(''type'', JStr ''ping''), (''ref'', JStr [])]) \<and>
   JSON_parse demo_env startFrame = Some startMessage"
  by (simp add: demo_defs)


subsection \<open>Every send is made on an open socket\<close>

lemma extendsOpen_refl: "extendsOpen st st"
  by (simp add: extendsOpen_def newActions_def)

lemma extendsOpen_same_trace: "extendsOpen st0 st \<Longrightarrow> trace st' = trace st \<Longrightarrow> extendsOpen st0 st'"
  by (simp add: extendsOpen_def newActions_def)

lemma extendsOpen_append:
  "extendsOpen st0 st \<Longrightarrow> trace st' = trace st @ new \<Longrightarrow> list_all sentWhileOpen new
   \<Longrightarrow> extendsOpen st0 st'"
proof -
  assume a: "extendsOpen st0 st" and t: "trace st' = trace st @ new" and n: "list_all sentWhileOpen new"
  from a have len: "length (trace st0) \<le> length (trace st)"
    unfolding extendsOpen_def by (metis length_take min.cobounded1 min.commute)
  from a have p: "take (length (trace st0)) (trace st) = trace st0"
    and q: "list_all sentWhileOpen (drop (length (trace st0)) (trace st))"
    by (simp_all add: extendsOpen_def newActions_def)
  show ?thesis
    using len p q n t by (simp add: extendsOpen_def newActions_def)
qed

lemma extendsOpen_ws_close: "extendsOpen st0 st \<Longrightarrow> extendsOpen st0 (ws_close s a st)"
  by (rule extendsOpen_append [where new = "[Close s a]"]) (simp_all add: ws_close_def sentWhileOpen_def)

lemma extendsOpen_ws_send:
  "extendsOpen st0 st \<Longrightarrow> readyState st s = OPEN \<Longrightarrow> extendsOpen st0 (ws_send s p st)"
  by (rule extendsOpen_append [where new = "[Send s p OPEN]"]) (simp_all add: ws_send_def sentWhileOpen_def)

lemma extendsOpen_sendToClient: "extendsOpen st0 st \<Longrightarrow> extendsOpen st0 (sendToClient ws d st)"
  by (auto simp: sendToClient_def extendsOpen_ws_send split: option.splits)

lemma extendsOpen_sendError: "extendsOpen st0 st \<Longrightarrow> extendsOpen st0 (sendError ws m c st)"
  by (simp add: sendError_def extendsOpen_sendToClient)

lemma extendsOpen_updConn: "extendsOpen st0 st \<Longrightarrow> extendsOpen st0 (updConn r f st)"
  by (erule extendsOpen_same_trace) (simp add: updConn_def)

lemma extendsOpen_setReadyState: "extendsOpen st0 st \<Longrightarrow> extendsOpen st0 (setReadyState s rs st)"
  by (erule extendsOpen_same_trace) (simp add: setReadyState_def)

lemma extendsOpen_connectionsDelete: "extendsOpen st0 st \<Longrightarrow> extendsOpen st0 (connectionsDelete c st)"
  by (erule extendsOpen_same_trace) (simp add: connectionsDelete_def)

lemmas eo = extendsOpen_ws_close extendsOpen_ws_send extendsOpen_sendToClient extendsOpen_sendError
  extendsOpen_updConn extendsOpen_setReadyState extendsOpen_connectionsDelete

lemma extendsOpen_sendIfSonioxOpen: "extendsOpen st0 st \<Longrightarrow> extendsOpen st0 (sendIfSonioxOpen conn p st)"
  by (auto simp: sendIfSonioxOpen_def eo split: option.splits)

lemma extendsOpen_cleanupConnection: "extendsOpen st0 st \<Longrightarrow> extendsOpen st0 (cleanupConnection cid st)"
  by (auto simp: cleanupConnection_def closeClient_def closeSoniox_def Let_def eo split: option.splits)

lemma extendsOpen_connectToSoniox: "extendsOpen st0 st \<Longrightarrow> extendsOpen st0 (connectToSoniox cid cfg st)"
  unfolding connectToSoniox_def Let_def
  apply (auto split: option.splits)
  apply (rule extendsOpen_append [where new = "[NewWebSocket _, SetTimeout _ 10000]"], assumption)
    apply (simp_all add: sentWhileOpen_def)
  apply (rule extendsOpen_append [where new = "[NewWebSocket _, SetTimeout _ 10000]" and st = "updConn _ _ (ws_close _ None st)"])
    apply (simp_all add: sentWhileOpen_def eo)
  done

lemma extendsOpen_GetUser: "extendsOpen st0 st \<Longrightarrow> extendsOpen st0 (st\<lparr> trace := trace st @ [GetUser t] \<rparr>)"
  by (rule extendsOpen_append [where new = "[GetUser t]"]) (simp_all add: sentWhileOpen_def)

lemma extendsOpen_wssOnConnection:
  "extendsOpen st0 st \<Longrightarrow> wssOnConnection e cid ws req st = Inr st' \<Longrightarrow> extendsOpen st0 st'"
  unfolding wssOnConnection_def Let_def
  by (auto split: option.splits if_splits simp: eo extendsOpen_GetUser)

lemma extendsOpen_wssOnConnection_settled: "extendsOpen st0 st \<Longrightarrow> extendsOpen st0 (wssOnConnection_settled cid ws outcome st)"
  unfolding wssOnConnection_settled_def Let_def
  apply (cases outcome)
  apply (auto simp: eo)
  apply (rule extendsOpen_sendToClient)
  apply (erule extendsOpen_same_trace) apply simp
  done

lemma extendsOpen_sonioxOnOpen: "extendsOpen st0 st \<Longrightarrow> readyState st s = OPEN \<Longrightarrow> extendsOpen st0 (sonioxOnOpen e s a st)"
  unfolding sonioxOnOpen_def
  apply (rule extendsOpen_ws_send)
   apply (simp add: eo)
  apply (simp add: updConn_def)
  done

lemma extendsOpen_sonioxOnMessage: "extendsOpen st0 st \<Longrightarrow> extendsOpen st0 (sonioxOnMessage a d st)"
  unfolding sonioxOnMessage_def Let_def
  by (auto simp: eo)

lemma extendsOpen_sonioxOnClose: "extendsOpen st0 st \<Longrightarrow> extendsOpen st0 (sonioxOnClose a c r st)"
  unfolding sonioxOnClose_def Let_def
  by (auto simp: eo)

lemma extendsOpen_sonioxOnError: "extendsOpen st0 st \<Longrightarrow> extendsOpen st0 (sonioxOnError a m st)"
  unfolding sonioxOnError_def Let_def
  by (auto simp: eo)

lemma extendsOpen_onTimeout: "extendsOpen st0 st \<Longrightarrow> extendsOpen st0 (onTimeout s a st)"
  unfolding onTimeout_def Let_def
  by (auto simp: eo)

lemma extendsOpen_handleClientMessage:
  "extendsOpen st0 st \<Longrightarrow> handleClientMessage e cid d b now st = Inr st' \<Longrightarrow> extendsOpen st0 st'"
  unfolding handleClientMessage_def Let_def
  by (auto simp: eo extendsOpen_sendIfSonioxOpen extendsOpen_connectToSoniox split: option.splits if_splits)

lemma extendsOpen_start: "trace st1 = trace st \<Longrightarrow> extendsOpen st st1"
  by (rule extendsOpen_same_trace [OF extendsOpen_refl])

lemma extendsOpen_step: "step e ev st = Inr st' \<Longrightarrow> extendsOpen st st'"
proof (cases ev)
  case (Connection cid req)
  assume "step e ev st = Inr st'"
  with Connection have "wssOnConnection e cid (next_sock st) req
      (setReadyState (next_sock st) OPEN (st\<lparr>next_sock := Suc (next_sock st)\<rparr>)) = Inr st'"
    by (simp add: Let_def)
  then show ?thesis
    by (rule extendsOpen_wssOnConnection [rotated]) (simp add: extendsOpen_start setReadyState_def)
next
  case (SonioxOpen s)
  assume "step e ev st = Inr st'"
  with SonioxOpen show ?thesis
    by (auto split: option.splits
        simp: extendsOpen_refl extendsOpen_sonioxOnOpen extendsOpen_start setReadyState_def)
next
  case (TimerFired s)
  assume "step e ev st = Inr st'"
  with TimerFired show ?thesis
    by (auto split: option.splits
        simp: extendsOpen_refl extendsOpen_onTimeout extendsOpen_start)
qed (auto split: option.splits
      simp: extendsOpen_refl eo extendsOpen_wssOnConnection_settled extendsOpen_cleanupConnection
        extendsOpen_sonioxOnMessage extendsOpen_sonioxOnClose extendsOpen_sonioxOnError
      intro: extendsOpen_handleClientMessage [OF extendsOpen_refl])


text \<open>
  C10. A frame the relay originates (\<^verbatim>\<open>auth_success\<close>, \<^verbatim>\<open>pong\<close>, \<^verbatim>\<open>proxy_ready\<close>,
  \<^verbatim>\<open>error\<close>) goes through \<open>sendToClient\<close>: with no socket, or with a socket in any state
  but \<open>OPEN\<close>, nothing is sent and the state is unchanged (the functions are total, so no
  exception leaves them); with an open socket exactly that frame is sent. More generally,
  whatever event the relay handles, every \<^verbatim>\<open>send\<close> it makes during the handling, to the
  client or upstream, is made on a socket whose \<^verbatim>\<open>readyState\<close> is \<open>OPEN\<close> at that moment,
  so none is attempted on a closing or closed socket.
\<close>

theorem relay_sends_only_on_open_sockets:
  "((ws = None \<or> (\<exists>s. ws = Some s \<and> readyState st s \<noteq> OPEN)) \<longrightarrow>
      sendToClient ws d st = st \<and> sendError ws m c st = st) \<and>
   (readyState st s = OPEN \<longrightarrow>
      sendToClient (Some s) d st = st\<lparr> trace := trace st @ [Send s (Stringify d) OPEN] \<rparr> \<and>
      sendError (Some s) m c st =
        st\<lparr> trace := trace st @ [Send s (Stringify (errorFrame m c)) OPEN] \<rparr>) \<and>
   (step e ev st = Inr st' \<longrightarrow>
      take (length (trace st)) (trace st') = trace st \<and>
      (\<forall>s' p rs. Send s' p rs \<in> set (newActions st st') \<longrightarrow> rs = OPEN))"
proof (intro conjI impI)
  assume "ws = None \<or> (\<exists>s. ws = Some s \<and> readyState st s \<noteq> OPEN)"
  then show "sendToClient ws d st = st" "sendError ws m c st = st"
    by (auto simp: sendToClient_def sendError_def)
next
  assume "readyState st s = OPEN"
  then show "sendToClient (Some s) d st = st\<lparr> trace := trace st @ [Send s (Stringify d) OPEN] \<rparr>"
    "sendError (Some s) m c st = st\<lparr> trace := trace st @ [Send s (Stringify (errorFrame m c)) OPEN] \<rparr>"
    by (simp_all add: sendToClient_def sendError_def ws_send_def)
next
  assume "step e ev st = Inr st'"
  then have eo: "extendsOpen st st'" by (rule extendsOpen_step)
  then show "take (length (trace st)) (trace st') = trace st"
    by (simp add: extendsOpen_def)
  from eo have "list_all sentWhileOpen (newActions st st')"
    by (simp add: extendsOpen_def)
  then show "\<forall>s' p rs. Send s' p rs \<in> set (newActions st st') \<longrightarrow> rs = OPEN"
    by (auto simp: list_all_iff sentWhileOpen_def)
qed

theorem relay_sends_only_on_open_sockets_witness:
  "readyState accepted 1 \<noteq> OPEN \<and>
   sendToClient (Some 1) (proxyReadyFrame ''c1'') accepted = accepted \<and>
   sendError (Some 1) ''Soniox connection timeout'' None accepted = accepted \<and>
   readyState accepted 0 = OPEN \<and>
   sendToClient (Some 0) (proxyReadyFrame ''c1'') accepted =
     accepted\<lparr> trace := trace accepted @ [Send 0 (Stringify (proxyReadyFrame ''c1'')) OPEN] \<rparr> \<and>
   step demo_env (ClientMessage ''c1'' pingFrame False 1700000000000) accepted =
     Inr (accepted\<lparr> trace := trace accepted @
        [Send 0 (Stringify (JObj [(''type'', JStr ''pong''), (''ref'', JNum 42),
                                  (''timestamp'', JNum 1700000000000)])) OPEN] \<rparr>) \<and>
   take (length (trace accepted))
     (trace (accepted\<lparr> trace := trace accepted @
        [Send 0 (Stringify (JObj [(''type'', JStr ''pong''), (''ref'', JNum 42),
                                  (''timestamp'', JNum 1700000000000)])) OPEN] \<rparr>)) = trace accepted"
proof -
  have st: "step demo_env (ClientMessage ''c1'' pingFrame False 1700000000000) accepted =
     Inr (accepted\<lparr> trace := trace accepted @
        [Send 0 (Stringify (JObj [(''type'', JStr ''pong''), (''ref'', JNum 42),
                                  (''timestamp'', JNum 1700000000000)])) OPEN] \<rparr>)"
    using accepted_facts
    by (simp add: handleClientMessage_def demo_env_def pingFrame_def startFrame_def looksLikeJson_def
        startsWith_def pongFrame_def orElse_def sendToClient_def ws_send_def)
  have closed: "readyState accepted 1 \<noteq> OPEN" and opened: "readyState accepted 0 = OPEN"
    using accepted_facts by simp_all
  show ?thesis
    using closed opened st
      relay_sends_only_on_open_sockets [where ws = "Some 1" and st = accepted and s = 0
        and d = "proxyReadyFrame ''c1''" and m = "''Soniox connection timeout''" and c = None
        and e = demo_env and ev = "ClientMessage ''c1'' pingFrame False 1700000000000"
        and st' = "accepted\<lparr> trace := trace accepted @
        [Send 0 (Stringify (JObj [(''type'', JStr ''pong''), (''ref'', JNum 42),
                                  (''timestamp'', JNum 1700000000000)])) OPEN] \<rparr>"]
    by simp
qed



subsection \<open>Cleanup\<close>

lemma newActions_append: "trace st' = trace st @ new \<Longrightarrow> newActions st st' = new"
  by (simp add: newActions_def)

text \<open>
  C4. \<open>cleanupConnection\<close> of a registered id closes the attached upstream socket, if
  there is one, and then the client socket unless it is already \<open>CLOSED\<close>, in that order
  and within the one call; afterwards neither socket is connecting or open. The id is
  still in the registry after the two closes and is deleted as the last step. A second
  call for the same id finds nothing and changes nothing: no action is added, so no
  socket is closed twice. The function is total: no exception can leave it. For an id
  that is not registered it is the identity.
\<close>

theorem cleanupConnection_closes_both_legs_once:
  "(connections st cid = None \<longrightarrow> cleanupConnection cid st = st) \<and>
   (connections st cid = Some r \<longrightarrow>
      cleanupConnection cid st =
        connectionsDelete cid (closeClient (heap st r) (closeSoniox (heap st r) st)) \<and>
      connections (closeClient (heap st r) (closeSoniox (heap st r) st)) cid = Some r \<and>
      newActions st (cleanupConnection cid st) =
        (case sonioxWs (heap st r) of None \<Rightarrow> [] | Some s \<Rightarrow> [Close s None]) @
        (if readyState (closeSoniox (heap st r) st) (clientWs (heap st r)) \<noteq> CLOSED
         then [Close (clientWs (heap st r)) None] else []) \<and>
      (\<forall>s. sonioxWs (heap st r) = Some s \<longrightarrow>
           readyState (cleanupConnection cid st) s \<in> {CLOSING, CLOSED}) \<and>
      readyState (cleanupConnection cid st) (clientWs (heap st r)) \<in> {CLOSING, CLOSED}) \<and>
   connections (cleanupConnection cid st) cid = None \<and>
   cleanupConnection cid (cleanupConnection cid st) = cleanupConnection cid st"
proof -
  have none: "connections st cid = None \<Longrightarrow> cleanupConnection cid st = st"
    by (simp add: cleanupConnection_def)
  have gone: "connections (cleanupConnection cid st) cid = None"
    by (simp add: cleanupConnection_def connectionsDelete_def Let_def split: option.splits)
  then have twice: "cleanupConnection cid (cleanupConnection cid st) = cleanupConnection cid st"
    by (simp add: cleanupConnection_def [of cid "cleanupConnection cid st"])
  have some: "connections st cid = Some r \<Longrightarrow>
      cleanupConnection cid st =
        connectionsDelete cid (closeClient (heap st r) (closeSoniox (heap st r) st)) \<and>
      connections (closeClient (heap st r) (closeSoniox (heap st r) st)) cid = Some r \<and>
      newActions st (cleanupConnection cid st) =
        (case sonioxWs (heap st r) of None \<Rightarrow> [] | Some s \<Rightarrow> [Close s None]) @
        (if readyState (closeSoniox (heap st r) st) (clientWs (heap st r)) \<noteq> CLOSED
         then [Close (clientWs (heap st r)) None] else []) \<and>
      (\<forall>s. sonioxWs (heap st r) = Some s \<longrightarrow>
           readyState (cleanupConnection cid st) s \<in> {CLOSING, CLOSED}) \<and>
      readyState (cleanupConnection cid st) (clientWs (heap st r)) \<in> {CLOSING, CLOSED}"
    by (cases "sonioxWs (heap st r)")
       (auto simp: cleanupConnection_def connectionsDelete_def closeClient_def closeSoniox_def
          ws_close_def newActions_def Let_def split: ready_state.splits)
  show ?thesis using none gone twice some by blast
qed

theorem cleanupConnection_closes_both_legs_once_witness:
  "connections streaming ''c1'' = Some 0 \<and>
   newActions streaming (cleanupConnection ''c1'' streaming) = [Close 1 None, Close 0 None] \<and>
   readyState (cleanupConnection ''c1'' streaming) 1 \<in> {CLOSING, CLOSED} \<and>
   readyState (cleanupConnection ''c1'' streaming) 0 \<in> {CLOSING, CLOSED} \<and>
   connections (cleanupConnection ''c1'' streaming) ''c1'' = None \<and>
   cleanupConnection ''c1'' (cleanupConnection ''c1'' streaming) = cleanupConnection ''c1'' streaming \<and>
   connections accepted ''c2'' = None \<and>
   cleanupConnection ''c2'' accepted = accepted"
proof -
  note inst = cleanupConnection_closes_both_legs_once [where st = streaming and cid = "''c1''" and r = 0]
  have unknown: "connections accepted ''c2'' = None"
    by (simp add: accepted_def relay_defs demo_defs)
  then have same: "cleanupConnection ''c2'' accepted = accepted"
    using cleanupConnection_closes_both_legs_once [where st = accepted and cid = "''c2''"] by blast
  have reg: "connections streaming ''c1'' = Some 0"
    using streaming_facts by simp
  from inst reg have "newActions streaming (cleanupConnection ''c1'' streaming) =
      (case sonioxWs (heap streaming 0) of None \<Rightarrow> [] | Some s \<Rightarrow> [Close s None]) @
      (if readyState (closeSoniox (heap streaming 0) streaming) (clientWs (heap streaming 0)) \<noteq> CLOSED
       then [Close (clientWs (heap streaming 0)) None] else [])"
    by blast
  then have acts: "newActions streaming (cleanupConnection ''c1'' streaming) = [Close 1 None, Close 0 None]"
    using streaming_facts by (simp add: closeSoniox_def ws_close_def)
  have up: "readyState (cleanupConnection ''c1'' streaming) 1 \<in> {CLOSING, CLOSED}"
    using inst reg streaming_facts by blast
  have cl: "readyState (cleanupConnection ''c1'' streaming) 0 \<in> {CLOSING, CLOSED}"
    using inst reg streaming_facts by auto
  show ?thesis
    using inst reg acts up cl unknown same by blast
qed

subsection \<open>Client frames\<close>

lemma looksLikeJson_firstNonWhitespace:
  "\<not> white (CHR ''{'') \<Longrightarrow> \<not> white (CHR ''['') \<Longrightarrow> looksLikeJson data \<Longrightarrow>
     firstNonWhitespace white data = Some (CHR ''{'') \<or>
     firstNonWhitespace white data = Some (CHR ''['')"
  by (cases data) (auto simp: looksLikeJson_def startsWith_def firstNonWhitespace_def)

text \<open>
  C5. A binary frame whose first byte that is not white space is neither an opening brace
  nor an opening bracket is raw audio, whichever bytes other than these two count as white
  space: when the Connection Record has an upstream socket attached and that socket is
  \<open>OPEN\<close>, the very bytes are sent on it and nothing else happens; in every other case (no
  record, no upstream socket, a socket that is not open) the state is returned unchanged,
  so nothing is sent to either side. (The oldest copy, lines 1459 to 1468, treats every
  binary frame this way without looking at its first byte.)
\<close>

theorem binary_audio_forwarded_or_dropped:
  "\<not> white (CHR ''{'') \<Longrightarrow> \<not> white (CHR ''['') \<Longrightarrow>
   firstNonWhitespace white data \<noteq> Some (CHR ''{'') \<Longrightarrow>
   firstNonWhitespace white data \<noteq> Some (CHR ''['') \<Longrightarrow>
   handleClientMessage e cid data True now st =
     Inr (case connections st cid of
            None \<Rightarrow> st
          | Some r \<Rightarrow>
              (case sonioxWs (heap st r) of
                 None \<Rightarrow> st
               | Some s \<Rightarrow>
                   if readyState st s = OPEN
                   then st\<lparr> trace := trace st @ [Send s (Raw data) OPEN] \<rparr>
                   else st))"
proof -
  assume "\<not> white (CHR ''{'')" "\<not> white (CHR ''['')"
    "firstNonWhitespace white data \<noteq> Some (CHR ''{'')"
    "firstNonWhitespace white data \<noteq> Some (CHR ''['')"
  then have "\<not> looksLikeJson data"
    using looksLikeJson_firstNonWhitespace by blast
  then show ?thesis
    by (simp add: handleClientMessage_def sendIfSonioxOpen_def ws_send_def Let_def split: option.splits)
qed

theorem binary_audio_forwarded_or_dropped_witness:
  "\<not> isWhiteSpace (CHR ''{'') \<and> \<not> isWhiteSpace (CHR ''['') \<and>
   firstNonWhitespace isWhiteSpace audioFrame = Some (CHR ''R'') \<and>
   handleClientMessage demo_env ''c1'' audioFrame True 1700000000000 streaming =
     Inr (streaming\<lparr> trace := trace streaming @ [Send 1 (Raw audioFrame) OPEN] \<rparr>) \<and>
   handleClientMessage demo_env ''c1'' audioFrame True 1700000000000 accepted = Inr accepted"
proof -
  have w: "\<not> isWhiteSpace (CHR ''{'')" "\<not> isWhiteSpace (CHR ''['')"
    by (simp_all add: isWhiteSpace_def)
  have f: "firstNonWhitespace isWhiteSpace audioFrame = Some (CHR ''R'')"
    by (simp add: firstNonWhitespace_def audioFrame_def isWhiteSpace_def)
  show ?thesis
    using w f streaming_facts accepted_facts
      binary_audio_forwarded_or_dropped [where white = isWhiteSpace and data = audioFrame
        and e = demo_env and cid = "''c1''" and now = 1700000000000 and st = streaming]
      binary_audio_forwarded_or_dropped [where white = isWhiteSpace and data = audioFrame
        and e = demo_env and cid = "''c1''" and now = 1700000000000 and st = accepted]
    by simp
qed

text \<open>
  C8. A frame that reaches \<^verbatim>\<open>JSON.parse\<close> (it is not binary, or it starts with a brace
  or a bracket) and does not parse is discarded: the handler returns the state it was
  given, so no frame is sent to the client or upstream, the Connection Record and the
  registry are as before, and no socket is closed.
\<close>

theorem unparsable_frame_discarded:
  "\<not> (isBinary \<and> \<not> looksLikeJson data) \<Longrightarrow> JSON_parse e data = None \<Longrightarrow>
   handleClientMessage e cid data isBinary now st = Inr st"
  by (auto simp: handleClientMessage_def Let_def split: option.splits)

theorem unparsable_frame_discarded_witness:
  "JSON_parse demo_env malformedFrame = None \<and>
   handleClientMessage demo_env ''c1'' malformedFrame False 1700000000000 streaming = Inr streaming"
  using demo_parse
    unparsable_frame_discarded [where isBinary = False and data = malformedFrame and e = demo_env
      and cid = "''c1''" and now = 1700000000000 and st = streaming]
  by simp

text \<open>
  C9, as amended. A parsed frame whose \<^verbatim>\<open>type\<close> is \<^verbatim>\<open>ping\<close> is answered through
  \<open>sendToClient\<close>: when the client socket is \<open>OPEN\<close> exactly one \<^verbatim>\<open>pong\<close> frame is sent,
  whose \<^verbatim>\<open>ref\<close> is the caller's \<^verbatim>\<open>ref\<close> when that value is truthy and 0 otherwise (the
  field is absent, or is \<^verbatim>\<open>null\<close>, \<^verbatim>\<open>false\<close>, 0 or the empty string), and whose
  \<^verbatim>\<open>timestamp\<close> is the clock reading taken while the ping is handled, which is not
  before the time the ping was received. Nothing else changes; in particular nothing is
  sent upstream and the upstream socket is not touched.
\<close>

theorem ping_answered_with_pong:
  "connections st cid = Some r \<Longrightarrow> \<not> (isBinary \<and> \<not> looksLikeJson data) \<Longrightarrow>
   JSON_parse e data = Some message \<Longrightarrow> getProp message ''type'' = Some (JStr ''ping'') \<Longrightarrow>
   received \<le> now \<Longrightarrow>
   handleClientMessage e cid data isBinary now st =
     Inr (if readyState st (clientWs (heap st r)) = OPEN
          then st\<lparr> trace := trace st @
                 [Send (clientWs (heap st r)) (Stringify (pongFrame message now)) OPEN] \<rparr>
          else st) \<and>
   getProp (pongFrame message now) ''type'' = Some (JStr ''pong'') \<and>
   getProp (pongFrame message now) ''ref'' =
     Some (case getProp message ''ref'' of
             None \<Rightarrow> JNum 0
           | Some v \<Rightarrow> if truthy v then v else JNum 0) \<and>
   (\<exists>ts. getProp (pongFrame message now) ''timestamp'' = Some (JNum ts) \<and> received \<le> ts)"
  by (auto simp: handleClientMessage_def Let_def sendToClient_def ws_send_def pongFrame_def orElse_def
       split: option.splits)


theorem ping_answered_with_pong_witness:
  "handleClientMessage demo_env ''c1'' pingFrame False 1700000000000 streaming =
     Inr (streaming\<lparr> trace := trace streaming @
            [Send 0 (Stringify (JObj [(''type'', JStr ''pong''), (''ref'', JNum 42),
                                      (''timestamp'', JNum 1700000000000)])) OPEN] \<rparr>)"
  using demo_parse streaming_facts
    ping_answered_with_pong [where st = streaming and cid = "''c1''" and r = 0 and isBinary = False
      and data = pingFrame and e = demo_env
      and message = "JObj [(''type'', JStr ''ping''), (''ref'', JNum 42)]"
      and received = 1699999999999 and now = 1700000000000]
  by (simp add: pongFrame_def orElse_def)

text \<open>
  C9 as stated, that the \<^verbatim>\<open>ref\<close> of the caller is echoed whenever it is there,
  fails for a falsy \<^verbatim>\<open>ref\<close>: the ping \<^verbatim>\<open>{"type":"ping","ref":""}\<close> is answered with
  \<^verbatim>\<open>ref\<close> 0.
\<close>

theorem ping_with_empty_ref_answered_with_zero:
  "JSON_parse demo_env pingEmptyRefFrame =
     Some (JObj [(''type'', JStr ''ping''), (''ref'', JStr [])]) \<and>
   handleClientMessage demo_env ''c1'' pingEmptyRefFrame False 1700000000000 accepted =
     Inr (accepted\<lparr> trace := trace accepted @
            [Send 0 (Stringify (JObj [(''type'', JStr ''pong''), (''ref'', JNum 0),
                                      (''timestamp'', JNum 1700000000000)])) OPEN] \<rparr>) \<and>
   JNum 0 \<noteq> JStr []"
  using demo_parse accepted_facts
  by (simp add: handleClientMessage_def looksLikeJson_def startsWith_def pingEmptyRefFrame_def
      sendToClient_def ws_send_def pongFrame_def orElse_def)



subsection \<open>The bearer token of an upgrade request\<close>

lemma replaceFirst_prefix: "replaceFirst pat [] (pat @ rest) = rest"
proof (cases "pat @ rest")
  case Nil
  then show ?thesis by simp
next
  case (Cons a list)
  have "startsWith (a # list) pat"
    unfolding Cons [symmetric] by (simp add: startsWith_def)
  then have "replaceFirst pat [] (a # list) = drop (length pat) (a # list)"
    by simp
  then show ?thesis
    unfolding Cons [symmetric] by simp
qed

lemma noToken_simps: "noToken None" "noToken (Some t) = (t = [])"
  by (simp_all add: noToken_def)

text \<open>
  The token of an upgrade request whose URL parses is the first query-string parameter
  named \<^verbatim>\<open>token\<close> when it is there and not empty. Otherwise the
  \<^verbatim>\<open>sec-websocket-protocol\<close> header is split at commas, every component is trimmed, and
  the first component that starts with \<^verbatim>\<open>Bearer.\<close> gives the token, which is what follows
  that prefix. When neither yields a token (no header, no such component, or nothing after
  the prefix) the handler sends the \<^verbatim>\<open>error\<close> frame \<^verbatim>\<open>Unauthorized: No token provided\<close>
  with code 401, closes the client socket with status 1008, registers no Connection Record
  and never calls the credential verifier. When a token was found the verifier is called
  with it. (The two older copies, lines 1047 to 1056 and 1396 to 1405, read the query
  parameter only.)
\<close>

lemma token_from_query_else_protocol_header:
  "(map_of (searchParams u) ''token'' = Some t \<and> t \<noteq> [] \<longrightarrow> extractToken u req = Some t) \<and>
   (noToken (map_of (searchParams u) ''token'') \<and> sec_websocket_protocol req = Some protocols \<and>
    find (\<lambda>p. startsWith p ''Bearer.'') (map trim (splitOn (CHR '','') protocols)) =
      Some (''Bearer.'' @ tok)
      \<longrightarrow> extractToken u req = Some tok) \<and>
   (noToken (map_of (searchParams u) ''token'') \<and>
    (sec_websocket_protocol req = None \<or>
     (\<exists>protocols. sec_websocket_protocol req = Some protocols \<and>
        find (\<lambda>p. startsWith p ''Bearer.'') (map trim (splitOn (CHR '','') protocols)) = None))
      \<longrightarrow> noToken (extractToken u req))"
proof (intro conjI impI)
  assume "map_of (searchParams u) ''token'' = Some t \<and> t \<noteq> []"
  then show "extractToken u req = Some t"
    by (simp add: extractToken_def noToken_def)
next
  assume a: "noToken (map_of (searchParams u) ''token'') \<and> sec_websocket_protocol req = Some protocols \<and>
    find (\<lambda>p. startsWith p ''Bearer.'') (map trim (splitOn (CHR '','') protocols)) =
      Some (''Bearer.'' @ tok)"
  then have "protocols \<noteq> []" by (auto simp: trim_def startsWith_def)
  with a show "extractToken u req = Some tok"
    using replaceFirst_prefix [of "''Bearer.''" tok]
    by (simp add: extractToken_def)
next
  assume "noToken (map_of (searchParams u) ''token'') \<and>
    (sec_websocket_protocol req = None \<or>
     (\<exists>protocols. sec_websocket_protocol req = Some protocols \<and>
        find (\<lambda>p. startsWith p ''Bearer.'') (map trim (splitOn (CHR '','') protocols)) = None))"
  then show "noToken (extractToken u req)"
    by (auto simp: extractToken_def Let_def)
qed

lemma request_without_token_refused:
  assumes u: "new_URL e (url req) (urlBase req) = Some u" and n: "noToken (extractToken u req)"
  shows "\<exists>st'. wssOnConnection e cid ws req st = Inr st' \<and>
      (readyState st ws = OPEN \<longrightarrow>
         newActions st st' =
           [Send ws (Stringify (JObj [(''type'', JStr ''error''),
                                      (''message'', JStr ''Unauthorized: No token provided''),
                                      (''code'', JNum 401)])) OPEN,
            Close ws (Some (1008, ''Unauthorized''))]) \<and>
      list_all (\<lambda>a. case a of GetUser v \<Rightarrow> False | _ \<Rightarrow> True) (newActions st st') \<and>
      connections st' = connections st"
  using u n
  by (simp add: wssOnConnection_def ws_close_def sendError_def sendToClient_def ws_send_def
      errorFrame_def newActions_def)

lemma request_with_token_verified:
  assumes u: "new_URL e (url req) (urlBase req) = Some u" and n: "\<not> noToken (extractToken u req)"
  shows "\<exists>v. extractToken u req = Some v \<and>
      wssOnConnection e cid ws req st = Inr (st\<lparr> trace := trace st @ [GetUser v] \<rparr>)"
  using u n by (cases "extractToken u req") (simp_all add: wssOnConnection_def noToken_def)

text \<open>Where the URL does not parse the handler throws at line 569, before it has looked
  for a token, sent a frame or closed the socket.\<close>

lemma unparsable_target_throws:
  "new_URL e (url req) (urlBase req) = None \<Longrightarrow>
   wssOnConnection e cid ws req st = Inl TypeError \<and> step e (Connection cid req) st = Inl TypeError"
  by (simp add: wssOnConnection_def urlBase_def Let_def)

lemma bearer_components:
  "map trim (splitOn (CHR '','') ''soniox, Bearer.jwt-abc '') = [''soniox'', ''Bearer.jwt-abc'']"
  by (simp add: trim_def isWhiteSpace_def)

lemma token_examples:
  "extractToken \<lparr> searchParams = [(''token'', ''jwt'')] \<rparr> demo_request = Some ''jwt'' \<and>
   extractToken \<lparr> searchParams = [(''v'', ''2'')] \<rparr> bearerRequest = Some ''jwt-abc'' \<and>
   noToken (extractToken \<lparr> searchParams = [] \<rparr> anonymousRequest) \<and>
   wssOnConnection demo_env ''c1'' 0 bearerRequest listening =
     Inr (listening\<lparr> trace := [GetUser ''jwt-abc''] \<rparr>) \<and>
   wssOnConnection demo_env ''c1'' 0 anonymousRequest listening =
     Inr (listening\<lparr> readyState := (readyState listening)(0 := CLOSING),
            trace := [Send 0 (Stringify (JObj [(''type'', JStr ''error''),
                                               (''message'', JStr ''Unauthorized: No token provided''),
                                               (''code'', JNum 401)])) OPEN,
                      Close 0 (Some (1008, ''Unauthorized''))] \<rparr>)"
  unfolding extractToken_def bearerRequest_def anonymousRequest_def demo_request_def
  by (simp add: bearer_components noToken_def startsWith_def trim_def isWhiteSpace_def
      wssOnConnection_def extractToken_def urlBase_def demo_env_def demo_URL_def listening_def
      setReadyState_def init_server_def sendError_def sendToClient_def ws_send_def ws_close_def
      errorFrame_def)

text \<open>
  C7 does not hold of the code. The claim: for every upgrade request the token is taken
  from the query string, else from the \<^verbatim>\<open>sec-websocket-protocol\<close> header, and when neither
  yields one the connection fails with Unauthorized, an error frame and then a close,
  before the verifier is called. The handler parses the request target at line 569,
  \<^verbatim>\<open>new URL(req.url, `http://${req.headers.host}`)\<close>, outside every \<^verbatim>\<open>try\<close>. For the
  target \<^verbatim>\<open>//\<close> the constructor throws. A request with that target and no token is
  therefore not refused: no error frame is sent and the socket is not closed, the promise
  of the handler is rejected with nothing to handle it, and the process ends, here while
  another connection is streaming. With a \<^verbatim>\<open>Bearer.\<close> component in the header the same
  happens, so the header is never read. The same request with the target \<^verbatim>\<open>/\<close> is refused
  as the claim says. (Line 569 is the same in the two older copies, lines 1048 and 1397.)
\<close>

theorem unparsable_target_is_not_refused:
  "url emptyHostRequest = ''//'' \<and> urlBase emptyHostRequest = ''http://relay.example'' \<and>
   sec_websocket_protocol emptyHostRequest = None \<and>
   new_URL demo_env ''//'' ''http://relay.example'' = None \<and>
   step demo_env (Connection ''c2'' emptyHostRequest) streaming = Inl TypeError \<and>
   run demo_env (streamingEvents @ [Connection ''c2'' emptyHostRequest]) init_server =
     Inl (Uncaught TypeError) \<and>
   step demo_env
     (Connection ''c2'' (emptyHostRequest\<lparr> sec_websocket_protocol := Some ''Bearer.jwt-abc'' \<rparr>))
     streaming = Inl TypeError \<and>
   (\<exists>st'. step demo_env (Connection ''c2'' (emptyHostRequest\<lparr> url := ''/'' \<rparr>)) streaming = Inr st' \<and>
      newActions streaming st' =
        [Send 2 (Stringify (JObj [(''type'', JStr ''error''),
                                  (''message'', JStr ''Unauthorized: No token provided''),
                                  (''code'', JNum 401)])) OPEN,
         Close 2 (Some (1008, ''Unauthorized''))])"
proof -
  have s: "next_sock streaming = 2"
    using streaming_facts by simp
  have r: "run demo_env streamingEvents init_server = Inr streaming"
    by (simp add: streaming_def streamingEvents_def relay_defs demo_defs)
  have t: "step demo_env (Connection ''c2'' emptyHostRequest) streaming = Inl TypeError"
    by (simp add: emptyHostRequest_def wssOnConnection_def urlBase_def demo_env_def demo_URL_def)
  have "run demo_env (streamingEvents @ [Connection ''c2'' emptyHostRequest]) init_server =
     Inl (Uncaught TypeError)"
    using r t by (simp add: run_append)
  then show ?thesis
    using s t
    by (simp add: emptyHostRequest_def wssOnConnection_def urlBase_def demo_env_def demo_URL_def
        extractToken_def noToken_def Let_def setReadyState_def sendError_def sendToClient_def
        ws_send_def ws_close_def errorFrame_def newActions_def)
qed


subsection \<open>The provider key stays on the upstream side\<close>


















lemma newActions_self [simp]: "newActions st st = []"
  by (simp add: newActions_def)



























subsection \<open>The connect timeout\<close>

lemmas scenario_defs = streamingEvents_def endedEarlyEvents_def restartEvents_def doubleStartEvents_def
  replacedEvents_def
  errorFrame_def newActions_def proxyReadyFrame_def


lemma timers_connectToSoniox: "s \<in> timers st \<Longrightarrow> s \<in> timers (connectToSoniox cid cfg st)"
  by (simp add: connectToSoniox_def ws_close_def updConn_def Let_def split: option.splits)

lemma timers_step:
  "step e ev st = Inr st' \<Longrightarrow> ev \<noteq> TimerFired s \<Longrightarrow> s \<in> timers st \<Longrightarrow> s \<in> timers st'"
proof (cases ev)
  case (ClientMessage cid d b now)
  assume "step e ev st = Inr st'" "s \<in> timers st"
  with ClientMessage show ?thesis
    by (auto simp: handleClientMessage_def sendIfSonioxOpen_def sendToClient_def ws_send_def Let_def
        timers_connectToSoniox split: option.splits if_splits)
next
  case (TimerFired s')
  assume "step e ev st = Inr st'" "ev \<noteq> TimerFired s" "s \<in> timers st"
  with TimerFired show ?thesis
    by (auto simp: onTimeout_def sendToClient_def ws_send_def ws_close_def Let_def
        split: option.splits if_splits)
qed (auto simp: wssOnConnection_def wssOnConnection_settled_def sendError_def sendToClient_def ws_send_def
      ws_close_def setReadyState_def cleanupConnection_def closeClient_def closeSoniox_def
      connectionsDelete_def sonioxOnOpen_def sonioxOnMessage_def sonioxOnClose_def sonioxOnError_def
      updConn_def Let_def split: option.splits getUser_outcome.splits if_splits)

text \<open>
  Every start sets one 10 second timer for the socket it creates, and nothing cancels a
  timer: no event but its own expiry removes it, the opening of the socket included
  (\<open>timers_step\<close> above). At expiry the callback looks at the socket as it is then. If it
  is \<open>OPEN\<close>, nothing is sent and nothing is closed. If it is not, it is closed and the
  frame \<^verbatim>\<open>{type: 'error', message: 'Soniox connection timeout'}\<close> goes through
  \<open>sendToClient\<close>, so it is sent once, when the client socket is \<open>OPEN\<close>.
\<close>

lemma start_sets_timer:
  "connections st cid = Some r \<Longrightarrow>
   next_sock st \<in> timers (connectToSoniox cid cfg st) \<and>
   opened (connectToSoniox cid cfg st) = opened st \<and>
   readyState (connectToSoniox cid cfg st) (next_sock st) = CONNECTING \<and>
   listeners (connectToSoniox cid cfg st) (next_sock st) =
     Some \<lparr> a_conn = r, a_connectionId = cid, a_config = cfg \<rparr> \<and>
   newActions st (connectToSoniox cid cfg st) =
     (case sonioxWs (heap st r) of None \<Rightarrow> [] | Some old \<Rightarrow> [Close old None]) @
     [NewWebSocket (next_sock st), SetTimeout (next_sock st) 10000]"
  by (simp add: connectToSoniox_def ws_close_def updConn_def newActions_def Let_def
      split: option.splits)

lemma expiry_on_socket_not_open:
  "listeners st s = Some a \<Longrightarrow> readyState st s \<noteq> OPEN \<Longrightarrow> clientWs (heap st (a_conn a)) \<noteq> s \<Longrightarrow>
   \<exists>st1. step e (TimerFired s) st = Inr st1 \<and>
     newActions st st1 =
       Close s None #
       (if readyState st (clientWs (heap st (a_conn a))) = OPEN
        then [Send (clientWs (heap st (a_conn a)))
                (Stringify (JObj [(''type'', JStr ''error''),
                                  (''message'', JStr ''Soniox connection timeout'')])) OPEN]
        else []) \<and>
     readyState st1 s \<in> {CLOSING, CLOSED} \<and>
     heap st1 = heap st \<and> connections st1 = connections st \<and>
     opened st1 = opened st \<and> next_sock st1 = next_sock st \<and> s \<notin> timers st1"
  by (cases "readyState st s")
     (auto simp: onTimeout_def sendToClient_def ws_send_def ws_close_def errorFrame_def
        newActions_def Let_def)

lemma expiry_on_open_socket:
  "listeners st s = Some a \<Longrightarrow> readyState st s = OPEN \<Longrightarrow>
   step e (TimerFired s) st = Inr (st\<lparr> timers := timers st - {s} \<rparr>)"
  by (simp add: onTimeout_def)

text \<open>
  An attempt that has not opened when its timer expires is closed then, and stays closed
  and unopened: neither its \<^verbatim>\<open>open\<close> listener nor its \<^verbatim>\<open>message\<close> listener ever runs, so
  no \<^verbatim>\<open>proxy_ready\<close> is sent for it.
\<close>

lemma closedUnopened_ws_close: "closedUnopened s st \<Longrightarrow> closedUnopened s (ws_close s' args st)"
  by (auto simp: closedUnopened_def ws_close_def split: ready_state.splits)

lemma closedUnopened_ws_send: "closedUnopened s st \<Longrightarrow> closedUnopened s (ws_send s' p st)"
  by (simp add: closedUnopened_def ws_send_def)

lemma closedUnopened_sendToClient: "closedUnopened s st \<Longrightarrow> closedUnopened s (sendToClient ws d st)"
  by (simp add: sendToClient_def closedUnopened_ws_send split: option.splits)

lemma closedUnopened_updConn: "closedUnopened s st \<Longrightarrow> closedUnopened s (updConn r f st)"
  by (simp add: closedUnopened_def updConn_def)

lemma closedUnopened_closed: "closedUnopened s st \<Longrightarrow> closedUnopened s (setReadyState s' CLOSED st)"
  by (simp add: closedUnopened_def setReadyState_def)

lemma closedUnopened_closing: "closedUnopened s st \<Longrightarrow> closedUnopened s (setReadyState s' CLOSING st)"
  by (simp add: closedUnopened_def setReadyState_def)

lemma closedUnopened_sendIfSonioxOpen:
  "closedUnopened s st \<Longrightarrow> closedUnopened s (sendIfSonioxOpen conn p st)"
  by (simp add: sendIfSonioxOpen_def closedUnopened_ws_send split: option.splits)

lemma closedUnopened_connectToSoniox:
  "closedUnopened s st \<Longrightarrow> closedUnopened s (connectToSoniox cid cfg st)"
  by (auto simp: closedUnopened_def connectToSoniox_def ws_close_def updConn_def Let_def
      split: option.splits ready_state.splits)

lemma closedUnopened_cleanupConnection:
  "closedUnopened s st \<Longrightarrow> closedUnopened s (cleanupConnection cid st)"
  by (auto simp: closedUnopened_def cleanupConnection_def closeClient_def closeSoniox_def
      connectionsDelete_def ws_close_def Let_def split: option.splits ready_state.splits)

lemmas cu = closedUnopened_ws_close closedUnopened_ws_send closedUnopened_sendToClient
  closedUnopened_updConn closedUnopened_closed closedUnopened_closing
  closedUnopened_sendIfSonioxOpen closedUnopened_connectToSoniox closedUnopened_cleanupConnection

lemma closedUnopened_step:
  assumes c: "closedUnopened s st" and d: "deliverable st ev" and st: "step e ev st = Inr st'"
  shows "closedUnopened s st'"
proof (cases ev)
  case (Connection cid req)
  from c have c0: "closedUnopened s (setReadyState (next_sock st) OPEN (st\<lparr> next_sock := Suc (next_sock st) \<rparr>))"
    by (auto simp: closedUnopened_def setReadyState_def)
  have gu: "\<And>t st0. closedUnopened s st0 \<Longrightarrow> closedUnopened s (st0\<lparr> trace := trace st0 @ [GetUser t] \<rparr>)"
    by (simp add: closedUnopened_def)
  from st Connection have "wssOnConnection e cid (next_sock st) req
      (setReadyState (next_sock st) OPEN (st\<lparr> next_sock := Suc (next_sock st) \<rparr>)) = Inr st'"
    by (simp add: Let_def)
  with c0 show ?thesis
    by (auto simp: wssOnConnection_def sendError_def Let_def cu gu split: option.splits if_splits)
next
  case (GetUserSettled cid ws outcome)
  have reg: "closedUnopened s (st\<lparr> heap := h, next_ref := n, connections := m \<rparr>)" for h n m
    using c by (simp add: closedUnopened_def)
  from c st GetUserSettled show ?thesis
    by (cases outcome) (auto simp: wssOnConnection_settled_def sendError_def Let_def cu reg)
next
  case (ClientMessage cid d b now)
  with c st show ?thesis
    by (auto simp: handleClientMessage_def Let_def cu split: option.splits if_splits)
next
  case (ClientClose cid ws)
  with c st show ?thesis by (auto simp: cu)
next
  case (ClientError cid ws)
  with c st show ?thesis by (auto simp: cu)
next
  case (SonioxOpen s')
  with c d have ne: "s' \<noteq> s" by (auto simp: closedUnopened_def)
  with c have "closedUnopened s (setReadyState s' OPEN (st\<lparr> opened := insert s' (opened st) \<rparr>))"
    by (simp add: closedUnopened_def setReadyState_def)
  with st SonioxOpen c show ?thesis
    by (auto simp: sonioxOnOpen_def cu split: option.splits)
next
  case (SonioxMessage s' m)
  with c st show ?thesis
    by (auto simp: sonioxOnMessage_def Let_def cu split: option.splits)
next
  case (SonioxClose s' code reason)
  with c st show ?thesis
    by (auto simp: sonioxOnClose_def Let_def cu split: option.splits)
next
  case (SonioxError s' m)
  with c st show ?thesis
    by (auto simp: sonioxOnError_def Let_def cu split: option.splits)
next
  case (TimerFired s')
  from c have "closedUnopened s (st\<lparr> timers := timers st - {s'} \<rparr>)"
    by (simp add: closedUnopened_def)
  with st TimerFired c show ?thesis
    by (auto simp: onTimeout_def Let_def cu split: option.splits)
qed

lemma closedUnopened_silent:
  "closedUnopened s st \<Longrightarrow>
   \<not> deliverable st (SonioxOpen s) \<and> \<not> deliverable st (SonioxMessage s d)"
  by (auto simp: closedUnopened_def)

lemma closedUnopened_run:
  "closedUnopened s st \<Longrightarrow> run e evs st = Inr st' \<Longrightarrow>
   closedUnopened s st' \<and> SonioxOpen s \<notin> set evs \<and> (\<forall>d. SonioxMessage s d \<notin> set evs)"
proof (induction evs arbitrary: st)
  case Nil
  then show ?case by simp
next
  case (Cons ev evs)
  from Cons.prems(2) have d: "deliverable st ev"
    by (simp split: if_splits)
  with Cons.prems(2) obtain st1 where s1: "step e ev st = Inr st1" and r: "run e evs st1 = Inr st'"
    by (cases "step e ev st") simp_all
  have c1: "closedUnopened s st1"
    using Cons.prems(1) d s1 by (rule closedUnopened_step)
  from closedUnopened_silent [OF Cons.prems(1)] d
  have "ev \<noteq> SonioxOpen s" "\<And>m. ev \<noteq> SonioxMessage s m"
    by auto
  with Cons.IH [OF c1 r] show ?case by auto
qed

lemma expired_attempt_never_opens:
  assumes l: "listeners st s = Some a" and n: "s < next_sock st" and o: "s \<notin> opened st"
    and r: "readyState st s = CONNECTING" and c: "clientWs (heap st (a_conn a)) \<noteq> s"
    and run: "run e (TimerFired s # evs) st = Inr st'"
  shows "SonioxOpen s \<notin> set evs \<and> (\<forall>d. SonioxMessage s d \<notin> set evs) \<and> closedUnopened s st'"
proof -
  from r have "readyState st s \<noteq> OPEN" by simp
  from expiry_on_socket_not_open [OF l this c, of e] obtain st1 where
    s1: "step e (TimerFired s) st = Inr st1" and rs: "readyState st1 s \<in> {CLOSING, CLOSED}"
    and op: "opened st1 = opened st" and ns: "next_sock st1 = next_sock st"
    by blast
  from rs op ns n o have c1: "closedUnopened s st1"
    by (simp add: closedUnopened_def)
  from run s1 have "run e evs st1 = Inr st'"
    by (simp split: if_splits)
  from closedUnopened_run [OF c1 this] show ?thesis by blast
qed

lemma neverOpened_facts:
  "connections (reach neverOpenedEvents) ''c1'' = Some 0 \<and>
   listeners (reach neverOpenedEvents) 1 =
     Some \<lparr> a_conn = 0, a_connectionId = ''c1'', a_config = demoConfig \<rparr> \<and>
   readyState (reach neverOpenedEvents) 1 = CONNECTING \<and>
   readyState (reach neverOpenedEvents) 0 = OPEN \<and>
   clientWs (heap (reach neverOpenedEvents) 0) = 0 \<and>
   1 \<in> timers (reach neverOpenedEvents) \<and> 1 \<notin> opened (reach neverOpenedEvents) \<and>
   next_sock (reach neverOpenedEvents) = 2"
  by (simp add: neverOpenedEvents_def demoConfig_def orElse_def relay_defs demo_defs)

lemma timeout_of_attempt_that_never_opened:
  "\<exists>st1. step demo_env (TimerFired 1) (reach neverOpenedEvents) = Inr st1 \<and>
     newActions (reach neverOpenedEvents) st1 =
       [Close 1 None,
        Send 0 (Stringify (JObj [(''type'', JStr ''error''),
                                 (''message'', JStr ''Soniox connection timeout'')])) OPEN] \<and>
     closedUnopened 1 st1 \<and>
     \<not> deliverable st1 (SonioxOpen 1) \<and> \<not> deliverable st1 (SonioxMessage 1 ''{}'')"
proof -
  let ?a = "\<lparr> a_conn = 0, a_connectionId = ''c1'', a_config = demoConfig \<rparr>"
  note n = neverOpened_facts
  from n have "readyState (reach neverOpenedEvents) 1 \<noteq> OPEN" "clientWs (heap (reach neverOpenedEvents) (a_conn ?a)) \<noteq> 1"
    by simp_all
  from expiry_on_socket_not_open [where st = "reach neverOpenedEvents" and s = 1 and a = ?a and e = demo_env, OF _ this]
    n
  obtain st1 where s1: "step demo_env (TimerFired 1) (reach neverOpenedEvents) = Inr st1"
    and a: "newActions (reach neverOpenedEvents) st1 =
       [Close 1 None,
        Send 0 (Stringify (JObj [(''type'', JStr ''error''),
                                 (''message'', JStr ''Soniox connection timeout'')])) OPEN]"
    and rs: "readyState st1 1 \<in> {CLOSING, CLOSED}"
    and op: "opened st1 = opened (reach neverOpenedEvents)"
    and ns: "next_sock st1 = next_sock (reach neverOpenedEvents)"
    by auto
  from rs op ns n have c: "closedUnopened 1 st1"
    by (simp add: closedUnopened_def)
  from s1 a c closedUnopened_silent [OF c] show ?thesis by blast
qed

text \<open>
  C3 does not hold of the code. The claim: an attempt that has not opened within 10
  seconds is closed, the client is sent one error frame that mentions the timeout and no
  \<^verbatim>\<open>proxy_ready\<close>; and the timeout is cancelled the instant the provider connection opens,
  so that once it has opened no timeout error frame is ever sent for that session. The
  relay never cancels the timer (there is no \<^verbatim>\<open>clearTimeout\<close>); the callback, lines 861 to
  870, tests \<^verbatim>\<open>sonioxWs.readyState !== WebSocket.OPEN\<close> when it fires, and a socket that
  opened and has ended since is not \<open>OPEN\<close>. In the first schedule below the session
  opens, is announced with \<^verbatim>\<open>proxy_ready\<close>, and is closed by the provider within the 10
  seconds: the timer, still set, fires and the client is sent \<^verbatim>\<open>Soniox connection
  timeout\<close> for a connection that did open. In the second the session was replaced by a
  second start: the timer of the first socket fires while the replacement is open and
  streaming, and the client is sent the same frame. (The callback is the same in the two
  older copies.)
\<close>

theorem timeout_frame_after_session_had_opened:
  "run demo_env (endedEarlyEvents @ [TimerFired 1]) init_server =
     Inr (reach (endedEarlyEvents @ [TimerFired 1])) \<and>
   1 \<in> opened streaming \<and> readyState streaming 1 = OPEN \<and> 1 \<in> timers streaming \<and>
   Send 0 (Stringify (JObj [(''type'', JStr ''proxy_ready''), (''connection_id'', JStr ''c1'')])) OPEN
     \<in> set (trace streaming) \<and>
   1 \<in> timers (reach endedEarlyEvents) \<and>
   readyState (reach endedEarlyEvents) 1 = CLOSED \<and>
   newActions (reach endedEarlyEvents) (reach (endedEarlyEvents @ [TimerFired 1])) =
     [Close 1 None,
      Send 0 (Stringify (JObj [(''type'', JStr ''error''),
                               (''message'', JStr ''Soniox connection timeout'')])) OPEN] \<and>
   run demo_env (replacedEvents @ [TimerFired 1]) init_server =
     Inr (reach (replacedEvents @ [TimerFired 1])) \<and>
   sonioxWs (heap (reach replacedEvents) 0) = Some 2 \<and>
   readyState (reach replacedEvents) 2 = OPEN \<and>
   newActions (reach replacedEvents) (reach (replacedEvents @ [TimerFired 1])) =
     [Close 1 None,
      Send 0 (Stringify (JObj [(''type'', JStr ''error''),
                               (''message'', JStr ''Soniox connection timeout'')])) OPEN]"
  by (simp add: streaming_def scenario_defs relay_defs demo_defs)


subsection \<open>Restarting the upstream session\<close>

text \<open>
  What holds in every state: \<open>isReady\<close> of a record goes from false to true only in the
  \<^verbatim>\<open>message\<close> listener of a socket created for that record; the \<^verbatim>\<open>close\<close> and \<^verbatim>\<open>error\<close>
  listeners clear \<open>isReady\<close> and \<open>sonioxWs\<close>; and \<open>connectToSoniox\<close> does not touch
  \<open>isReady\<close>.
\<close>

lemma isReady_connectToSoniox:
  "isReady (heap (connectToSoniox cid cfg st) r) = isReady (heap st r)"
  by (simp add: connectToSoniox_def ws_close_def updConn_def Let_def split: option.splits)

lemma isReady_raised_only_by_upstream_frame:
  "step e ev st = Inr st' \<Longrightarrow> \<not> isReady (heap st r) \<Longrightarrow> isReady (heap st' r) \<Longrightarrow>
   \<exists>s d a. ev = SonioxMessage s d \<and> listeners st s = Some a \<and> a_conn a = r"
proof (cases ev)
  case (ClientMessage cid d b now)
  assume "step e ev st = Inr st'" "\<not> isReady (heap st r)" "isReady (heap st' r)"
  with ClientMessage show ?thesis
    by (auto simp: handleClientMessage_def sendIfSonioxOpen_def sendToClient_def ws_send_def Let_def
        isReady_connectToSoniox split: option.splits if_splits)
qed (auto simp: wssOnConnection_def wssOnConnection_settled_def sendError_def sendToClient_def ws_send_def
      ws_close_def setReadyState_def cleanupConnection_def closeClient_def closeSoniox_def
      connectionsDelete_def sonioxOnOpen_def sonioxOnMessage_def sonioxOnClose_def sonioxOnError_def
      onTimeout_def updConn_def Let_def split: option.splits getUser_outcome.splits if_splits)

lemma upstream_end_resets_isReady:
  "listeners st s = Some a \<Longrightarrow>
   (step e (SonioxClose s code reason) st = Inr st' \<or> step e (SonioxError s message) st = Inr st') \<Longrightarrow>
   \<not> isReady (heap st' (a_conn a)) \<and> sonioxWs (heap st' (a_conn a)) = None"
  by (auto simp: sonioxOnClose_def sonioxOnError_def sendToClient_def ws_send_def updConn_def
      setReadyState_def Let_def split: if_splits)

text \<open>
  C1 does not hold of the code. The claim: \<^verbatim>\<open>is_ready\<close> is false immediately after a
  start action, becomes true once per upstream session, on the first frame from upstream,
  with exactly one \<^verbatim>\<open>proxy_ready\<close> frame per session, and is reset when the session ends,
  before a replacement can set it. In the schedule below a second start arrives while the
  first session is ready. \<open>connectToSoniox\<close> closes and detaches the old socket but leaves
  \<open>isReady\<close> as it is, so it is still true right after the start; the first frame of the
  replacement session (socket 2) is forwarded without a \<^verbatim>\<open>proxy_ready\<close>; the \<^verbatim>\<open>close\<close>
  event of the old socket then clears \<open>sonioxWs\<close> and \<open>isReady\<close> although socket 2 is
  open; and the next frame of socket 2 is announced with \<^verbatim>\<open>proxy_ready\<close>. (The restart
  is the same in the older copies; the oldest, lines 1521 to 1539, raises \<open>isReady\<close> in
  the \<^verbatim>\<open>open\<close> listener.)
\<close>

theorem restart_keeps_stale_readiness:
  "run demo_env
     (restartEvents @
      [SonioxOpen 2, SonioxMessage 2 ''{}'', SonioxClose 1 1000 (Some []), SonioxMessage 2 ''{}''])
     init_server =
   Inr (reach (restartEvents @
      [SonioxOpen 2, SonioxMessage 2 ''{}'', SonioxClose 1 1000 (Some []), SonioxMessage 2 ''{}''])) \<and>
   isReady (heap (reach restartEvents) 0) \<and>
   sonioxWs (heap (reach restartEvents) 0) = None \<and>
   newActions (reach (restartEvents @ [SonioxOpen 2]))
     (reach (restartEvents @ [SonioxOpen 2, SonioxMessage 2 ''{}''])) = [Send 0 (Raw ''{}'') OPEN] \<and>
   readyState (reach (restartEvents @
      [SonioxOpen 2, SonioxMessage 2 ''{}'', SonioxClose 1 1000 (Some [])])) 2 = OPEN \<and>
   sonioxWs (heap (reach (restartEvents @
      [SonioxOpen 2, SonioxMessage 2 ''{}'', SonioxClose 1 1000 (Some [])])) 0) = None \<and>
   newActions
     (reach (restartEvents @ [SonioxOpen 2, SonioxMessage 2 ''{}'', SonioxClose 1 1000 (Some [])]))
     (reach (restartEvents @
        [SonioxOpen 2, SonioxMessage 2 ''{}'', SonioxClose 1 1000 (Some []), SonioxMessage 2 ''{}''])) =
     [Send 0 (Stringify (proxyReadyFrame ''c1'')) OPEN, Send 0 (Raw ''{}'') OPEN]"
  by (simp add: scenario_defs relay_defs demo_defs)

text \<open>
  What a start closes: the socket attached to the record, if there is one, and no other.
  A socket created for the record that has not opened yet is not attached, and is left as
  it is.
\<close>

lemma restart_closes_attached_socket:
  "connections st cid = Some r \<Longrightarrow> sonioxWs (heap st r) = Some old \<Longrightarrow>
   newActions st (connectToSoniox cid cfg st) =
     [Close old None, NewWebSocket (next_sock st), SetTimeout (next_sock st) 10000] \<and>
   sonioxWs (heap (connectToSoniox cid cfg st) r) = None"
  by (simp add: connectToSoniox_def ws_close_def updConn_def newActions_def Let_def)

lemma restart_closes_nothing_unattached:
  "connections st cid = Some r \<Longrightarrow> sonioxWs (heap st r) = None \<Longrightarrow>
   newActions st (connectToSoniox cid cfg st) =
     [NewWebSocket (next_sock st), SetTimeout (next_sock st) 10000] \<and>
   (\<forall>s. s \<noteq> next_sock st \<longrightarrow> readyState (connectToSoniox cid cfg st) s = readyState st s)"
  by (simp add: connectToSoniox_def newActions_def Let_def)


text \<open>
  C2 does not hold of the code. The claim: a start action closes and discards any existing
  upstream session of the connection before the new outbound connection is opened, also
  for two starts in succession, so that a Connection Record never has two live upstream
  sessions. \<open>connectToSoniox\<close> closes the socket in \<open>sonioxWs\<close>, and that field is set only
  when a socket opens. In the schedule below the second start arrives while the first
  socket is still connecting: nothing is closed, both sockets open and receive the
  configuration, the frames of the first are forwarded to the client although the record
  holds the second, and cleanup closes the second only, so the first stays open.
\<close>

theorem pending_session_survives_second_start:
  "run demo_env (doubleStartEvents @ [SonioxMessage 1 ''{}'', ClientClose ''c1'' 0]) init_server =
     Inr (reach (doubleStartEvents @ [SonioxMessage 1 ''{}'', ClientClose ''c1'' 0])) \<and>
   readyState (reach doubleStartEvents) 1 = OPEN \<and>
   readyState (reach doubleStartEvents) 2 = OPEN \<and>
   sonioxWs (heap (reach doubleStartEvents) 0) = Some 2 \<and>
   list_all (\<lambda>a. case a of Close s args \<Rightarrow> False | _ \<Rightarrow> True) (trace (reach doubleStartEvents)) \<and>
   newActions (reach doubleStartEvents) (reach (doubleStartEvents @ [SonioxMessage 1 ''{}''])) =
     [Send 0 (Stringify (proxyReadyFrame ''c1'')) OPEN, Send 0 (Raw ''{}'') OPEN] \<and>
   newActions (reach (doubleStartEvents @ [SonioxMessage 1 ''{}'']))
     (reach (doubleStartEvents @ [SonioxMessage 1 ''{}'', ClientClose ''c1'' 0])) = [Close 2 None] \<and>
   readyState (reach (doubleStartEvents @ [SonioxMessage 1 ''{}'', ClientClose ''c1'' 0])) 1 = OPEN"
  by (simp add: scenario_defs relay_defs demo_defs)



end
